theory Spec2Isabelle
  imports Complex_Main
begin

section \<open>Host-side model of ptypy's pycuda array utilities\<close>

text \<open>
  The module \<^verbatim>\<open>ptypy/accelerate/cuda_pycuda/array_utils.py\<close> holds wrapper classes that
  validate their arguments, size a launch grid and enqueue device kernels. The device
  code is reached through a calling convention only, so the model records what the
  host does: the buffers it allocates, the commands it enqueues on the stream, and the
  errors it raises. Python integers are \<open>int\<close>, array extents are \<open>nat\<close>, numpy's
  fixed-width integers are integers reduced to their width, floating-point arithmetic
  is a parameter of the model, and every \<^verbatim>\<open>raise\<close> or failed \<^verbatim>\<open>assert\<close> is a
  value of type \<open>error\<close>.
\<close>

subsection \<open>Element types, errors and numeric conversions\<close>

datatype np_dtype = Float32 | Float64 | Complex64 | Complex128 | Int32 | Int64 | Other_dtype

datatype error =
    ValueError string
  | AssertionError string
  | NotImplementedError string
  | MemoryError string
  | UnboundLocalError string
  | IndexError string
  | ZeroDivisionError string
  | DeviceError string
  | OverflowError string

text \<open>\<^verbatim>\<open>map2ctype\<close>: the C type name of a numpy dtype.\<close>

fun map2ctype :: "np_dtype \<Rightarrow> error + string" where
  "map2ctype Float32 = Inr ''float''"
| "map2ctype Float64 = Inr ''double''"
| "map2ctype Complex64 = Inr ''complex<float>''"
| "map2ctype Complex128 = Inr ''complex<double>''"
| "map2ctype Int32 = Inr ''int''"
| "map2ctype Int64 = Inr ''long long''"
| "map2ctype Other_dtype = Inl (ValueError ''No mapping for {}'')"

text \<open>
  \<^verbatim>\<open>np.int32(v)\<close> and \<^verbatim>\<open>astype(np.int32)\<close> keep the low 32 bits of an integer, read
  as two's complement. Arithmetic on 64-bit integers (the elements of an integer array
  made from Python integers, and the scalars read from it) keeps the low 64 bits of the
  result. \<^verbatim>\<open>int(v)\<close> on a float truncates towards zero.
\<close>

definition np_int32 :: "int \<Rightarrow> int" where
  "np_int32 v = (v + 2147483648) mod 4294967296 - 2147483648"

definition np_int64 :: "int \<Rightarrow> int" where
  "np_int64 v = (v + 9223372036854775808) mod 18446744073709551616 - 9223372036854775808"

definition py_int :: "rat \<Rightarrow> int" where
  "py_int v = (if 0 \<le> v then \<lfloor>v\<rfloor> else \<lceil>v\<rceil>)"

subsection \<open>Floating-point arithmetic\<close>

text \<open>
  The module computes on Python floats (binary64) and on numpy \<^verbatim>\<open>float32\<close> scalars.
  That arithmetic belongs to the interpreter and to numpy, not to this module, so the
  model takes it as a parameter: a record of the literals and operations the module
  uses, over a type \<open>'f\<close> of floating-point values. A theorem about a function that
  computes on floats is proved for every such record, hence for IEEE arithmetic with its
  rounding, its infinities and its NaN. The fields are: the literals \<^verbatim>\<open>0.0\<close> (which a
  comparison with the integer \<^verbatim>\<open>0\<close> also uses), \<^verbatim>\<open>0.1\<close>, \<^verbatim>\<open>0.5\<close> and
  \<^verbatim>\<open>1e-6\<close>; \<^verbatim>\<open>+\<close> and \<^verbatim>\<open>*\<close>; the comparisons \<^verbatim>\<open>>\<close>, \<^verbatim>\<open><=\<close>,
  \<^verbatim>\<open><\<close> and \<^verbatim>\<open>==\<close> (\<^verbatim>\<open>!=\<close> is its negation); \<^verbatim>\<open>int(v)\<close>, which raises on
  an infinity or a NaN; \<^verbatim>\<open>np.abs\<close>; \<^verbatim>\<open>np.modf\<close>; the conversion to
  \<^verbatim>\<open>float32\<close>; and \<^verbatim>\<open>np.int32(v)\<close> of a \<^verbatim>\<open>float32\<close>.
\<close>

record 'f floats =
  fl_zero :: 'f
  fl_tenth :: 'f
  fl_half :: 'f
  fl_micro :: 'f
  fl_add :: "'f \<Rightarrow> 'f \<Rightarrow> 'f"
  fl_mul :: "'f \<Rightarrow> 'f \<Rightarrow> 'f"
  fl_gt :: "'f \<Rightarrow> 'f \<Rightarrow> bool"
  fl_le :: "'f \<Rightarrow> 'f \<Rightarrow> bool"
  fl_lt :: "'f \<Rightarrow> 'f \<Rightarrow> bool"
  fl_eq :: "'f \<Rightarrow> 'f \<Rightarrow> bool"
  fl_int :: "'f \<Rightarrow> error + int"
  fl_abs :: "'f \<Rightarrow> 'f"
  fl_modf :: "'f \<Rightarrow> 'f \<times> 'f"
  fl_float32 :: "'f \<Rightarrow> 'f"
  fl_int32 :: "'f \<Rightarrow> int"

text \<open>
  One such record, for the examples: the values are NaN and the rationals, the literals
  \<^verbatim>\<open>0.1\<close> and \<^verbatim>\<open>1e-6\<close> are the binary64 numbers nearest to them, arithmetic on
  rationals is exact and every comparison with NaN is false. On operands that binary64
  and \<^verbatim>\<open>float32\<close> represent exactly, with results that are again exact, these are the
  operations of IEEE arithmetic; the examples use no other operands. The conversion of a
  float outside the 32-bit range, or of a NaN, to \<^verbatim>\<open>np.int32\<close> gives \<open>- 2^31\<close>.
\<close>

datatype pyfloat = Finite rat | NaN

fun exact_arith :: "(rat \<Rightarrow> rat \<Rightarrow> rat) \<Rightarrow> pyfloat \<Rightarrow> pyfloat \<Rightarrow> pyfloat" where
  "exact_arith f (Finite u) (Finite v) = Finite (f u v)"
| "exact_arith f a b = NaN"

fun exact_cmp :: "(rat \<Rightarrow> rat \<Rightarrow> bool) \<Rightarrow> pyfloat \<Rightarrow> pyfloat \<Rightarrow> bool" where
  "exact_cmp p (Finite u) (Finite v) = p u v"
| "exact_cmp p a b = False"

fun exact_int :: "pyfloat \<Rightarrow> error + int" where
  "exact_int (Finite u) = Inr (py_int u)"
| "exact_int NaN = Inl (ValueError ''cannot convert float NaN to integer'')"

fun exact_abs :: "pyfloat \<Rightarrow> pyfloat" where
  "exact_abs (Finite u) = Finite \<bar>u\<bar>"
| "exact_abs NaN = NaN"

fun exact_modf :: "pyfloat \<Rightarrow> pyfloat \<times> pyfloat" where
  "exact_modf (Finite u) = (Finite (u - of_int (py_int u)), Finite (of_int (py_int u)))"
| "exact_modf NaN = (NaN, NaN)"

fun exact_int32 :: "pyfloat \<Rightarrow> int" where
  "exact_int32 (Finite u) =
     (if - 2147483648 \<le> py_int u \<and> py_int u < 2147483648 then py_int u else - 2147483648)"
| "exact_int32 NaN = - 2147483648"

definition exact_floats :: "pyfloat floats" where
  "exact_floats =
     \<lparr>fl_zero = Finite 0,
      fl_tenth = Finite (3602879701896397 / 36028797018963968),
      fl_half = Finite (1 / 2),
      fl_micro = Finite (4722366482869645 / 4722366482869645213696),
      fl_add = exact_arith (+),
      fl_mul = exact_arith (*),
      fl_gt = exact_cmp (>),
      fl_le = exact_cmp (\<le>),
      fl_lt = exact_cmp (<),
      fl_eq = exact_cmp (=),
      fl_int = exact_int,
      fl_abs = exact_abs,
      fl_modf = exact_modf,
      fl_float32 = (\<lambda>v. v),
      fl_int32 = exact_int32\<rparr>"

subsection \<open>Device buffers, kernels and the command stream\<close>

text \<open>
  A \<^verbatim>\<open>GPUArray\<close> is a handle to a device allocation together with its shape and
  element type. Two Python variables bound to the same array share the handle. The
  extents of an array are below \<open>2^63\<close>.
\<close>

record gpuarray =
  ident :: nat
  shape :: "nat list"
  dtype :: np_dtype

definition ndim :: "gpuarray \<Rightarrow> nat" where
  "ndim a = length (shape a)"

definition size_arr :: "gpuarray \<Rightarrow> nat" where
  "size_arr a = prod_list (shape a)"

definition iscomplexobj :: "gpuarray \<Rightarrow> bool" where
  "iscomplexobj a = (dtype a = Complex64 \<or> dtype a = Complex128)"

text \<open>
  Modelled from the spec: \<^verbatim>\<open>load_kernel\<close> lives in the package's
  \<^verbatim>\<open>__init__\<close>, which is not among the sources. The spec calls it the Kernel Source
  Provider: given a kernel name, a macro-substitution table and a source file it returns
  a callable compiled kernel. The handle keeps exactly that request.
\<close>

datatype kernel = Kernel string "(string \<times> string) list" "string option"

definition load_kernel :: "string \<Rightarrow> (string \<times> string) list \<Rightarrow> string option \<Rightarrow> kernel" where
  "load_kernel name subs file = Kernel name subs file"

text \<open>
  A kernel call passes buffers and scalars (32-bit integers and floats, the floats of
  type \<open>'f\<close>), then the block shape, the grid shape and the dynamic shared-memory size. Besides launches the stream carries the host-to-device
  transfer of the Gaussian taps and the device-to-device copy \<^verbatim>\<open>data[:] = tmp[:]\<close>.
\<close>

datatype 'f arg = Buf nat | I32 int | F32 'f

datatype 'f command =
    Launch kernel "'f arg list" "int \<times> int \<times> int" "int \<times> int \<times> int" int
  | Upload nat int 'f
  | Copy nat nat

text \<open>
  Buffer contents are symbolic: what the caller stored, fresh uninitialised or zeroed
  memory, or the output of a smoothing kernel of a given radius on earlier contents.
\<close>

datatype content = Stored nat | Uninitialised | Zeros | Smoothed kernel int content

record 'f device =
  fresh :: nat
  stream :: "'f command list"
  mem :: "nat \<Rightarrow> content"

definition enqueue :: "'f command \<Rightarrow> 'f device \<Rightarrow> 'f device" where
  "enqueue c dev = dev\<lparr>stream := stream dev @ [c]\<rparr>"

definition gpuarray_empty :: "'f device \<Rightarrow> nat list \<Rightarrow> np_dtype \<Rightarrow> gpuarray \<times> 'f device" where
  "gpuarray_empty dev shp dt =
     (\<lparr>ident = fresh dev, shape = shp, dtype = dt\<rparr>,
      dev\<lparr>fresh := Suc (fresh dev), mem := (mem dev)(fresh dev := Uninitialised)\<rparr>)"

definition gpuarray_zeros :: "'f device \<Rightarrow> nat list \<Rightarrow> np_dtype \<Rightarrow> gpuarray \<times> 'f device" where
  "gpuarray_zeros dev shp dt =
     (\<lparr>ident = fresh dev, shape = shp, dtype = dt\<rparr>,
      dev\<lparr>fresh := Suc (fresh dev), mem := (mem dev)(fresh dev := Zeros)\<rparr>)"

subsection \<open>ArrayUtilsKernel: dot and norm2\<close>

record ArrayUtilsKernel =
  acc_dtype :: np_dtype
  cdot_cuda :: kernel
  dot_cuda :: kernel
  full_reduce_cuda :: kernel
  Ctmp :: "gpuarray option"

definition acc_ctype :: "np_dtype \<Rightarrow> string" where
  "acc_ctype acc = (if acc = Float64 then ''double'' else ''float'')"

definition ArrayUtilsKernel_init :: "np_dtype \<Rightarrow> ArrayUtilsKernel" where
  "ArrayUtilsKernel_init acc =
     \<lparr>acc_dtype = acc,
      cdot_cuda = load_kernel ''dot''
        [(''IN_TYPE'', ''complex<float>''), (''ACC_TYPE'', acc_ctype acc)] None,
      dot_cuda = load_kernel ''dot''
        [(''IN_TYPE'', ''float''), (''ACC_TYPE'', acc_ctype acc)] None,
      full_reduce_cuda = load_kernel ''full_reduce''
        [(''IN_TYPE'', acc_ctype acc), (''OUT_TYPE'', acc_ctype acc),
         (''ACC_TYPE'', acc_ctype acc), (''BDIM_X'', ''1024'')] None,
      Ctmp = None\<rparr>"

text \<open>
  \<^verbatim>\<open>elsize\<close> is bound only for the two floating accumulator types; with any other
  accumulator type its first use raises.
\<close>

definition elsize :: "np_dtype \<Rightarrow> int option" where
  "elsize acc = (if acc = Float32 then Some 4 else if acc = Float64 then Some 8 else None)"

text \<open>The number of 1024-element blocks, \<^verbatim>\<open>grid[0]\<close>.\<close>

definition dot_blocks :: "gpuarray \<Rightarrow> int" where
  "dot_blocks B = (int (size_arr B) + 1023) div 1024"

text \<open>The two launches of \<^verbatim>\<open>dot\<close>: the per-block products and the final reduction.\<close>

definition dot_phase1 :: "ArrayUtilsKernel \<Rightarrow> gpuarray \<Rightarrow> gpuarray \<Rightarrow> gpuarray \<Rightarrow> int \<Rightarrow> 'f command" where
  "dot_phase1 self A B target els =
     Launch (if iscomplexobj B then cdot_cuda self else dot_cuda self)
       [Buf (ident A), Buf (ident B), I32 (np_int32 (int (size_arr A))), Buf (ident target)]
       (1024, 1, 1) (dot_blocks B, 1, 1) (1024 * els)"

definition dot_phase2 :: "ArrayUtilsKernel \<Rightarrow> gpuarray \<Rightarrow> gpuarray \<Rightarrow> int \<Rightarrow> int \<Rightarrow> 'f command" where
  "dot_phase2 self scratch out blocks els =
     Launch (full_reduce_cuda self)
       [Buf (ident scratch), Buf (ident out), I32 (np_int32 blocks)]
       (1024, 1, 1) (1, 1, 1) (els * 1024)"

definition dot :: "ArrayUtilsKernel \<Rightarrow> 'f device \<Rightarrow> gpuarray \<Rightarrow> gpuarray \<Rightarrow> gpuarray option
    \<Rightarrow> (error + gpuarray) \<times> ArrayUtilsKernel \<times> 'f device" where
  "dot self dev A B out_arg =
     (if dtype A \<noteq> dtype B then
        (Inl (AssertionError ''Input arrays must be of same data type''), self, dev)
      else if size_arr A \<noteq> size_arr B then
        (Inl (AssertionError ''Input arrays must be of the same size''), self, dev)
      else
        let (out, dev1) = (case out_arg of
                             None \<Rightarrow> gpuarray_zeros dev [1] (acc_dtype self)
                           | Some given \<Rightarrow> (given, dev));
            blocks = dot_blocks B;
            (scratch, dev2) = (case Ctmp self of
                                 None \<Rightarrow> gpuarray_zeros dev1 [nat blocks] (acc_dtype self)
                               | Some c \<Rightarrow>
                                   if int (size_arr c) < blocks
                                   then gpuarray_zeros dev1 [nat blocks] (acc_dtype self)
                                   else (c, dev1));
            self1 = self\<lparr>Ctmp := Some scratch\<rparr>;
            target = (if blocks = 1 then out else scratch)
        in case elsize (acc_dtype self) of
             None \<Rightarrow>
               (Inl (UnboundLocalError ''elsize''), self1, dev2)
           | Some els \<Rightarrow>
               let dev3 = enqueue (dot_phase1 self1 A B target els) dev2;
                   dev4 = (if blocks > 1
                           then enqueue (dot_phase2 self1 scratch out blocks els) dev3
                           else dev3)
               in (Inr out, self1, dev4))"

definition norm2 :: "ArrayUtilsKernel \<Rightarrow> 'f device \<Rightarrow> gpuarray \<Rightarrow> gpuarray option
    \<Rightarrow> (error + gpuarray) \<times> ArrayUtilsKernel \<times> 'f device" where
  "norm2 self dev A out_arg = dot self dev A A out_arg"

text \<open>The capacity of the instance's scratch buffer (0 before the first allocation).\<close>

definition scratch_size :: "ArrayUtilsKernel \<Rightarrow> nat" where
  "scratch_size self = (case Ctmp self of None \<Rightarrow> 0 | Some c \<Rightarrow> size_arr c)"

text \<open>
  A client's call of either reduction, and the instance and device it leaves behind (an
  exception does not undo what the call did before raising).
\<close>

datatype reduction_call = DotCall gpuarray gpuarray "gpuarray option" | Norm2Call gpuarray "gpuarray option"

fun perform :: "ArrayUtilsKernel \<times> 'f device \<Rightarrow> reduction_call \<Rightarrow> ArrayUtilsKernel \<times> 'f device" where
  "perform (self, dev) (DotCall A B out_arg) = snd (dot self dev A B out_arg)"
| "perform (self, dev) (Norm2Call A out_arg) = snd (norm2 self dev A out_arg)"

text \<open>The block count a call asks for, once its two assertions have passed.\<close>

fun needed :: "reduction_call \<Rightarrow> int option" where
  "needed (DotCall A B out_arg) =
     (if dtype A = dtype B \<and> size_arr A = size_arr B then Some (dot_blocks B) else None)"
| "needed (Norm2Call A out_arg) = Some (dot_blocks A)"

subsection \<open>TransposeKernel\<close>

record TransposeKernel =
  transpose_cuda :: kernel

definition TransposeKernel_init :: TransposeKernel where
  "TransposeKernel_init =
     \<lparr>transpose_cuda = load_kernel ''transpose'' [(''DTYPE'', ''int''), (''BDIM'', ''16'')] None\<rparr>"

text \<open>
  \<^verbatim>\<open>output.shape[1]\<close> is read by the second check whatever the rank of
  \<^verbatim>\<open>output\<close>; on a tuple shorter than two it raises \<^verbatim>\<open>IndexError\<close>.
\<close>

definition transpose :: "TransposeKernel \<Rightarrow> 'f device \<Rightarrow> gpuarray \<Rightarrow> gpuarray \<Rightarrow> error option \<times> 'f device" where
  "transpose self dev input output =
     (if length (shape input) \<noteq> 2 then
        (Some (ValueError ''Only 2D tranpose is supported - reshape as desired''), dev)
      else if length (shape output) < 2 then
        (Some (IndexError ''tuple index out of range''), dev)
      else if shape input ! 0 \<noteq> shape output ! 1 \<or> shape input ! 1 \<noteq> shape output ! 0 then
        (Some (ValueError ''Input/Output must be of flipped shape''), dev)
      else if dtype input \<noteq> Int32 \<or> dtype output \<noteq> Int32 then
        (Some (ValueError ''Only int types are supported at the moment''), dev)
      else
        let width = int (shape input ! 1);
            height = int (shape input ! 0);
            blk = (16, 16, 1);
            grd = ((int (shape input ! 1) + 15) div 16, (int (shape input ! 0) + 15) div 16, 1)
        in (None,
            enqueue (Launch (transpose_cuda self)
                       [Buf (ident input), Buf (ident output),
                        I32 (np_int32 width), I32 (np_int32 height)]
                       blk grd 0) dev))"

subsection \<open>CropPadKernel: fill3D and crop\_pad\_2d\_simple\<close>

text \<open>The dictionary \<^verbatim>\<open>fill3D_cuda\<close> caches one compiled kernel per pair of C types.\<close>

record CropPadKernel =
  fill3D_cuda :: "string \<Rightarrow> kernel option"

definition CropPadKernel_init :: CropPadKernel where
  "CropPadKernel_init = \<lparr>fill3D_cuda = (\<lambda>_. None)\<rparr>"

text \<open>\<^verbatim>\<open>v[v < 0] = 0\<close> on each component.\<close>

definition clip0 :: "int \<Rightarrow> int" where
  "clip0 v = (if v < 0 then 0 else v)"

text \<open>The last three extents, \<^verbatim>\<open>np.array(A.shape[-3:])\<close>.\<close>

definition last3 :: "gpuarray \<Rightarrow> int list" where
  "last3 A = map int (drop (ndim A - 3) (shape A))"

text \<open>
  The overlap lengths, computed once from the start in \<^verbatim>\<open>A\<close> and once from the
  start in \<^verbatim>\<open>B\<close>. The sums and differences are taken on 64-bit integers
  (\<^verbatim>\<open>off\<close>, \<^verbatim>\<open>Alim\<close> and \<^verbatim>\<open>Blim\<close> are 64-bit arrays, the two starts 32-bit
  ones), and the results are stored as 32-bit integers.
\<close>

definition fill3D_lengths :: "int list \<Rightarrow> int list \<Rightarrow> int list \<Rightarrow> int list \<Rightarrow> int list" where
  "fill3D_lengths off Alim Blim Ao32 = map np_int32
     [np_int64 (min (np_int64 (off ! 0 + Blim ! 0)) (Alim ! 0) - Ao32 ! 0),
      np_int64 (min (np_int64 (off ! 1 + Blim ! 1)) (Alim ! 1) - Ao32 ! 1),
      np_int64 (min (np_int64 (off ! 2 + Blim ! 2)) (Alim ! 2) - Ao32 ! 2)]"

definition fill3D_lengths2 :: "int list \<Rightarrow> int list \<Rightarrow> int list \<Rightarrow> int list \<Rightarrow> int list" where
  "fill3D_lengths2 off Alim Blim Bo32 = map np_int32
     [np_int64 (min (np_int64 (Alim ! 0 - off ! 0)) (Blim ! 0) - Bo32 ! 0),
      np_int64 (min (np_int64 (Alim ! 1 - off ! 1)) (Blim ! 1) - Bo32 ! 1),
      np_int64 (min (np_int64 (Alim ! 2 - off ! 2)) (Blim ! 2) - Bo32 ! 2)]"

text \<open>
  The spec's overlap of one axis: \<^verbatim>\<open>B\<close>, placed at \<open>v\<close>, covers the positions from
  \<open>v\<close> up to \<open>v + b\<close>, \<^verbatim>\<open>A\<close> those from 0 up to \<open>a\<close>; the overlap is the length
  of what they share, and is zero or negative when they share nothing.
\<close>

definition spec_overlap :: "int \<Rightarrow> int \<Rightarrow> int \<Rightarrow> int" where
  "spec_overlap a b v = min (v + b) a - max v 0"

text \<open>
  \<^verbatim>\<open>fill3D(A, B, offset)\<close>. The offset is the three-component sequence the
  docstring and the default \<^verbatim>\<open>[0, 0, 0]\<close> ask for; \<^verbatim>\<open>np.array(offset)\<close> makes
  it an array of 64-bit integers, so its components are integers from \<open>- 2^63\<close> up to
  \<open>2^63 - 1\<close>, and the negation \<^verbatim>\<open>-off.copy()\<close> is taken on 64 bits. The kernel
  receives the two start vectors and the overlap lengths as 32-bit integers.
\<close>

definition fill3D :: "CropPadKernel \<Rightarrow> 'f device \<Rightarrow> gpuarray \<Rightarrow> gpuarray \<Rightarrow> int \<times> int \<times> int
    \<Rightarrow> error option \<times> CropPadKernel \<times> 'f device" where
  "fill3D self dev A B offset =
     (if ndim A < 3 \<or> ndim B < 3 then
        (Some (ValueError ''Input arrays must each be at least 3D''), self, dev)
      else if ndim A \<noteq> ndim B then
        (Some (AssertionError ''Input and Output must have the same number of dimensions.''), self, dev)
      else
        let ash = shape A;
            bsh = shape B;
            misfit = map2 (\<lambda>b a. int b - int a) bsh ash
        in if list_ex (\<lambda>d. d \<noteq> 0) (take (length misfit - 3) misfit) then
             (Some (AssertionError
                ''Input and Output must have the same shape everywhere but the last three axes.''),
              self, dev)
           else
             let Alim = last3 A;
                 Blim = last3 B;
                 off = (case offset of (o0, o1, o2) \<Rightarrow> [o0, o1, o2]);
                 Ao = map clip0 off;
                 Bo = map clip0 (map (\<lambda>v. np_int64 (- v)) off)
             in if \<not> (list_all2 (<) Bo Blim \<and> list_all2 (<) Ao Alim) then
                  (Some (AssertionError ''At least one dimension lacks overlap''), self, dev)
                else
                  let Ao32 = map np_int32 Ao;
                      Bo32 = map np_int32 Bo;
                      lengths = fill3D_lengths off Alim Blim Ao32;
                      lengths2 = fill3D_lengths2 off Alim Blim Bo32
                  in if lengths \<noteq> lengths2 then
                       (Some (AssertionError ''left and right lenghts are not matching''), self, dev)
                     else
                       let batch = int (prod_list (take (ndim A - 3) (shape A)))
                       in case map2ctype (dtype B) of
                            Inl e \<Rightarrow> (Some e, self, dev)
                          | Inr tb \<Rightarrow>
                             (case map2ctype (dtype A) of
                                Inl e \<Rightarrow> (Some e, self, dev)
                              | Inr ta \<Rightarrow>
                                 let version = tb @ '','' @ ta;
                                     self1 = (case fill3D_cuda self version of
                                                Some k \<Rightarrow> self
                                              | None \<Rightarrow> self\<lparr>fill3D_cuda := (fill3D_cuda self)
                                                  (version := Some (load_kernel ''fill3D''
                                                     [(''IN_TYPE'', tb), (''OUT_TYPE'', ta)] None))\<rparr>);
                                     bx = 32;
                                     by = 32
                                 in (None, self1,
                                     enqueue (Launch (the (fill3D_cuda self1 version))
                                       ([Buf (ident A), Buf (ident B)]
                                        @ map (\<lambda>v. I32 (np_int32 v)) Alim
                                        @ map (\<lambda>v. I32 (np_int32 v)) Blim
                                        @ map I32 Ao32 @ map I32 Bo32 @ map I32 lengths)
                                       (bx, by, 1)
                                       ((lengths ! 2 + bx - 1) div bx,
                                        (lengths ! 1 + by - 1) div by,
                                        batch)
                                       0) dev)))"

text \<open>
  \<^verbatim>\<open>crop_pad_2d_simple(A, B)\<close>: a 2D array is viewed as a batch of one (the view
  shares the allocation), the offset is built from the last two extents and handed to
  \<^verbatim>\<open>fill3D\<close>.
\<close>

definition simple_offset :: "gpuarray \<Rightarrow> gpuarray \<Rightarrow> int \<times> int \<times> int" where
  "simple_offset A B =
     (let a1 = int (shape A ! (ndim A - 2)); a2 = int (shape A ! (ndim A - 1));
          b1 = int (shape B ! (ndim B - 2)); b2 = int (shape B ! (ndim B - 1))
      in (0, a1 div 2 - b1 div 2, a2 div 2 - b2 div 2))"

definition as_batch :: "gpuarray \<Rightarrow> gpuarray" where
  "as_batch A = (if ndim A = 2 then A\<lparr>shape := 1 # shape A\<rparr> else A)"

definition crop_pad_2d_simple :: "CropPadKernel \<Rightarrow> 'f device \<Rightarrow> gpuarray \<Rightarrow> gpuarray
    \<Rightarrow> error option \<times> CropPadKernel \<times> 'f device" where
  "crop_pad_2d_simple self dev A B =
     (if ndim A < 2 then
        (Some (AssertionError ''Arrays must have more than 2 dimensions.''), self, dev)
      else if ndim A \<noteq> ndim B then
        (Some (AssertionError ''Input and Output must have the same number of dimensions.''), self, dev)
      else
        let misfit = map2 (\<lambda>a b. int a - int b) (shape A) (shape B)
        in if list_ex (\<lambda>d. d \<noteq> 0) (take (length misfit - 2) misfit) then
             (Some (AssertionError
                ''Input and Output must have the same shape everywhere but the last two axes.''),
              self, dev)
           else
             let A1 = as_batch A;
                 B1 = as_batch B
             in fill3D self dev A1 B1 (simple_offset A1 B1))"

subsection \<open>GaussianSmoothingKernel\<close>

record 'f GaussianSmoothingKernel =
  kernel_type :: string
  num_stdevs :: 'f
  blockdim_x :: int
  blockdim_y :: int
  max_shared_per_block :: int
  max_shared_per_block_complex :: rat
  max_kernel_radius :: int
  convolution_row :: kernel
  convolution_col :: kernel
  kernel_gpu :: gpuarray
  self_r :: int
  self_std :: 'f

text \<open>
  The constructor: the shared-memory budget is half of 48 KiB, the item size of
  \<^verbatim>\<open>float32\<close> is 4, and the tap buffer is allocated with
  \<^verbatim>\<open>max_kernel_radius\<close> elements. The two float computations of the constructor,
  \<^verbatim>\<open>24576 / 2 * 4\<close> and its quotient by 16, have operands and results that binary64
  holds exactly, so they are written on rationals. The fields \<open>self_r\<close> and
  \<open>self_std\<close> are \<^verbatim>\<open>self.r\<close> and \<^verbatim>\<open>self.std\<close>, both 0 at first.
\<close>

definition GaussianSmoothingKernel_init :: "'f floats \<Rightarrow> 'f device \<Rightarrow> 'f \<Rightarrow> string
    \<Rightarrow> error + ('f GaussianSmoothingKernel \<times> 'f device)" where
  "GaussianSmoothingKernel_init fl dev nstd ktype =
     (if ktype \<noteq> ''float'' \<and> ktype \<noteq> ''double'' then
        Inl (ValueError ''Invalid data type for kernel'')
      else
        let bdx = 4;
            bdy = 16;
            msb = 48 * 1024 div 2;
            msbc = of_int msb / 2 * 4;
            mkr = py_int (msbc / of_int bdy);
            (kg, dev1) = gpuarray_empty dev [nat mkr]
                           (if ktype = ''float'' then Float32 else Float64)
        in Inr (\<lparr>kernel_type = ktype,
                 num_stdevs = nstd,
                 blockdim_x = bdx,
                 blockdim_y = bdy,
                 max_shared_per_block = msb,
                 max_shared_per_block_complex = msbc,
                 max_kernel_radius = mkr,
                 convolution_row = load_kernel ''convolution_row''
                   [(''BDIM_X'', ''4''), (''BDIM_Y'', ''16''),
                    (''DTYPE'', ''complex<float>''), (''MATH_TYPE'', ktype)]
                   (Some ''convolution.cu''),
                 convolution_col = load_kernel ''convolution_col''
                   [(''BDIM_X'', ''16''), (''BDIM_Y'', ''4''),
                    (''DTYPE'', ''complex<float>''), (''MATH_TYPE'', ktype)]
                   (Some ''convolution.cu''),
                 kernel_gpu = kg,
                 self_r = 0,
                 self_std = fl_zero fl\<rparr>, dev1))"

text \<open>
  The radius \<^verbatim>\<open>int(self.num_stdevs * std + 0.5)\<close>: a floating-point product and sum,
  then the conversion to an integer, which raises on an infinity or a NaN.
\<close>

definition radius :: "'f floats \<Rightarrow> 'f GaussianSmoothingKernel \<Rightarrow> 'f \<Rightarrow> error + int" where
  "radius fl self sd = fl_int fl (fl_add fl (fl_mul fl (num_stdevs self) sd) (fl_half fl))"

text \<open>
  The unpacking of \<^verbatim>\<open>shape\<close> and \<^verbatim>\<open>mfs\<close> by rank: batches, rows, columns and the
  two standard deviations. A one-dimensional array has no row pass (\<^verbatim>\<open>stdx = 0.0\<close>).
\<close>

fun unpack2 :: "'f list \<Rightarrow> error + ('f \<times> 'f)" where
  "unpack2 [stdy, stdx] = Inr (stdy, stdx)"
| "unpack2 (u # v # w # rest) = Inl (ValueError ''too many values to unpack (expected 2)'')"
| "unpack2 short = Inl (ValueError ''not enough values to unpack'')"

fun conv_dims :: "'f floats \<Rightarrow> nat list \<Rightarrow> 'f list \<Rightarrow> error + (int \<times> int \<times> int \<times> 'f \<times> 'f)" where
  "conv_dims fl [b, y, x] mfs =
     (case unpack2 mfs of Inl e \<Rightarrow> Inl e
      | Inr (stdy, stdx) \<Rightarrow> Inr (int b, int y, int x, stdy, stdx))"
| "conv_dims fl [y, x] mfs =
     (case unpack2 mfs of Inl e \<Rightarrow> Inl e
      | Inr (stdy, stdx) \<Rightarrow> Inr (1, int y, int x, stdy, stdx))"
| "conv_dims fl [y] mfs =
     (case mfs of [] \<Rightarrow> Inl (IndexError ''index out of range'')
      | stdy # rest \<Rightarrow> Inr (1, int y, 1, stdy, fl_zero fl))"
| "conv_dims fl other mfs =
     Inl (NotImplementedError ''input needs to be of dimensions 0 < ndims <= 3'')"

text \<open>
  The taps are recomputed and sent to the device only when the radius or the standard
  deviation differs from the cached pair. \<^verbatim>\<open>self.kernel_gpu[:r+1] = k[:]\<close> needs
  the slice of the tap buffer and the right half of the Gaussian (\<^verbatim>\<open>g[r:]\<close> of
  \<^verbatim>\<open>2r+1\<close> samples) to have the same length; the device library rejects the
  assignment otherwise. \<open>slice_len n stop\<close> is the length of \<^verbatim>\<open>a[:stop]\<close> for an
  array of \<open>n\<close> elements.
\<close>

definition slice_len :: "int \<Rightarrow> int \<Rightarrow> int" where
  "slice_len n stop = (if 0 \<le> stop then min stop n else max (n + stop) 0)"

definition taps_len :: "int \<Rightarrow> int" where
  "taps_len rad = (if 0 \<le> rad then rad + 1 else 0)"

definition transfer_taps :: "'f floats \<Rightarrow> 'f GaussianSmoothingKernel \<Rightarrow> 'f device \<Rightarrow> int \<Rightarrow> 'f
    \<Rightarrow> error option \<times> 'f GaussianSmoothingKernel \<times> 'f device" where
  "transfer_taps fl self dev rad sd =
     (if rad \<noteq> self_r self \<or> \<not> fl_eq fl sd (self_std self) then
        if slice_len (int (size_arr (kernel_gpu self))) (rad + 1) \<noteq> taps_len rad then
          (Some (ValueError ''src and dst must be same shape''), self, dev)
        else
          (None, self\<lparr>self_r := rad, self_std := sd\<rparr>,
           enqueue (Upload (ident (kernel_gpu self)) rad sd) dev)
      else (None, self, dev))"

text \<open>
  A smoothing launch reads \<^verbatim>\<open>input\<close> and the taps and writes \<^verbatim>\<open>output\<close>; the
  copy \<^verbatim>\<open>data[:] = tmp[:]\<close> overwrites the contents of \<^verbatim>\<open>data\<close>.
\<close>

definition launch_smoothing :: "kernel \<Rightarrow> gpuarray \<Rightarrow> gpuarray \<Rightarrow> int \<Rightarrow> int \<Rightarrow> gpuarray \<Rightarrow> int
    \<Rightarrow> int \<times> int \<times> int \<Rightarrow> int \<times> int \<times> int \<Rightarrow> int \<Rightarrow> 'f device \<Rightarrow> 'f device" where
  "launch_smoothing k input output y x taps rad blk grd shared dev =
     (enqueue (Launch k
        [Buf (ident input), Buf (ident output), I32 (np_int32 y), I32 (np_int32 x),
         Buf (ident taps), I32 (np_int32 rad)] blk grd shared) dev)
     \<lparr>mem := (mem dev)(ident output := Smoothed k rad (mem dev (ident input)))\<rparr>"

definition copy_into :: "gpuarray \<Rightarrow> gpuarray \<Rightarrow> 'f device \<Rightarrow> 'f device" where
  "copy_into dst src dev =
     (enqueue (Copy (ident dst) (ident src)) dev)
     \<lparr>mem := (mem dev)(ident dst := mem dev (ident src))\<rparr>"

text \<open>The row pass and the column pass; the two block dimensions swap roles.\<close>

definition row_pass :: "'f floats \<Rightarrow> 'f GaussianSmoothingKernel \<Rightarrow> 'f device \<Rightarrow> gpuarray \<Rightarrow> gpuarray
    \<Rightarrow> int \<Rightarrow> int \<Rightarrow> int \<Rightarrow> 'f \<Rightarrow> error option \<times> 'f GaussianSmoothingKernel \<times> 'f device" where
  "row_pass fl self dev input output batches y x stdx =
     (case radius fl self stdx of
        Inl e \<Rightarrow> (Some e, self, dev)
      | Inr rad \<Rightarrow>
         if rad > max_kernel_radius self then
           (Some (ValueError ''Size of Gaussian kernel too large''), self, dev)
         else
           (case transfer_taps fl self dev rad stdx of
             (Some e, self1, dev1) \<Rightarrow> (Some e, self1, dev1)
           | (None, self1, dev1) \<Rightarrow>
               let bx = blockdim_x self1;
                   by = blockdim_y self1;
                   shared = (bx + 2 * rad) * by * 8
               in if shared > max_shared_per_block self1 then
                    (Some (MemoryError ''Cannot run kernel in shared memory''), self1, dev1)
                  else
                    (None, self1,
                     launch_smoothing (convolution_row self1) input output y x
                       (kernel_gpu self1) rad (bx, by, 1)
                       ((y + bx - 1) div bx, (x + by - 1) div by, batches) shared dev1)))"

definition col_pass :: "'f floats \<Rightarrow> 'f GaussianSmoothingKernel \<Rightarrow> 'f device \<Rightarrow> gpuarray \<Rightarrow> gpuarray
    \<Rightarrow> int \<Rightarrow> int \<Rightarrow> int \<Rightarrow> 'f \<Rightarrow> error option \<times> 'f GaussianSmoothingKernel \<times> 'f device" where
  "col_pass fl self dev input output batches y x stdy =
     (case radius fl self stdy of
        Inl e \<Rightarrow> (Some e, self, dev)
      | Inr rad \<Rightarrow>
         if rad > max_kernel_radius self then
           (Some (ValueError ''Size of Gaussian kernel too large''), self, dev)
         else
           (case transfer_taps fl self dev rad stdy of
             (Some e, self1, dev1) \<Rightarrow> (Some e, self1, dev1)
           | (None, self1, dev1) \<Rightarrow>
               let bx = blockdim_y self1;
                   by = blockdim_x self1;
                   shared = (by + 2 * rad) * bx * 8
               in if shared > max_shared_per_block self1 then
                    (Some (MemoryError ''Cannot run kernel in shared memory''), self1, dev1)
                  else
                    (None, self1,
                     launch_smoothing (convolution_col self1) input output y x
                       (kernel_gpu self1) rad (bx, by, 1)
                       ((y + bx - 1) div bx, (x + by - 1) div by, batches) shared dev1)))"

text \<open>
  The row stage runs its pass from \<^verbatim>\<open>data\<close> into \<^verbatim>\<open>tmp\<close> when
  \<^verbatim>\<open>stdx > 0.1\<close> and then swaps \<^verbatim>\<open>input\<close> and \<^verbatim>\<open>output\<close>; the column stage
  runs from the current \<^verbatim>\<open>input\<close> into the current \<^verbatim>\<open>output\<close> when
  \<^verbatim>\<open>stdy > 0.1\<close>.
\<close>

definition row_stage :: "'f floats \<Rightarrow> 'f GaussianSmoothingKernel \<Rightarrow> 'f device \<Rightarrow> gpuarray \<Rightarrow> gpuarray
    \<Rightarrow> int \<Rightarrow> int \<Rightarrow> int \<Rightarrow> 'f
    \<Rightarrow> error option \<times> 'f GaussianSmoothingKernel \<times> 'f device \<times> gpuarray \<times> gpuarray" where
  "row_stage fl self dev data tmp batches y x stdx =
     (if fl_gt fl stdx (fl_tenth fl) then
        case row_pass fl self dev data tmp batches y x stdx of
          (e, self1, dev1) \<Rightarrow> (e, self1, dev1, tmp, data)
      else (None, self, dev, data, tmp))"

definition col_stage :: "'f floats \<Rightarrow> 'f GaussianSmoothingKernel \<Rightarrow> 'f device \<Rightarrow> gpuarray \<Rightarrow> gpuarray
    \<Rightarrow> int \<Rightarrow> int \<Rightarrow> int \<Rightarrow> 'f \<Rightarrow> error option \<times> 'f GaussianSmoothingKernel \<times> 'f device" where
  "col_stage fl self dev input output batches y x stdy =
     (if fl_gt fl stdy (fl_tenth fl) then col_pass fl self dev input output batches y x stdy
      else (None, self, dev))"

definition conv_tmp :: "'f device \<Rightarrow> gpuarray \<Rightarrow> gpuarray option \<Rightarrow> gpuarray \<times> 'f device" where
  "conv_tmp dev data tmp_arg =
     (case tmp_arg of
        None \<Rightarrow> gpuarray_empty dev (shape data) (dtype data)
      | Some given \<Rightarrow> (given, dev))"

text \<open>
  \<^verbatim>\<open>convolution(data, mfs, tmp)\<close>. After the two stages the code returns if
  \<^verbatim>\<open>stdx <= 0.1 and stdy <= 0.1\<close>, returns if \<^verbatim>\<open>stdx > 0.1 and stdy > 0.1\<close>, and
  otherwise copies \<^verbatim>\<open>tmp\<close> into \<^verbatim>\<open>data\<close>.
\<close>

definition convolution :: "'f floats \<Rightarrow> 'f GaussianSmoothingKernel \<Rightarrow> 'f device \<Rightarrow> gpuarray \<Rightarrow> 'f list
    \<Rightarrow> gpuarray option \<Rightarrow> error option \<times> 'f GaussianSmoothingKernel \<times> 'f device" where
  "convolution fl self dev data mfs tmp_arg =
     (case conv_tmp dev data tmp_arg of (tmp, dev0) \<Rightarrow>
        if \<not> (shape data = shape tmp \<and> dtype data = dtype tmp) then
          (Some (AssertionError []), self, dev0)
        else
          (case conv_dims fl (shape data) mfs of
            Inl e \<Rightarrow> (Some e, self, dev0)
          | Inr (batches, y, x, stdy, stdx) \<Rightarrow>
             (case row_stage fl self dev0 data tmp batches y x stdx of
                (Some e, self1, dev1, input, output) \<Rightarrow> (Some e, self1, dev1)
              | (None, self1, dev1, input, output) \<Rightarrow>
                 (case col_stage fl self1 dev1 input output batches y x stdy of
                    (Some e, self2, dev2) \<Rightarrow> (Some e, self2, dev2)
                  | (None, self2, dev2) \<Rightarrow>
                     if fl_le fl stdx (fl_tenth fl) \<and> fl_le fl stdy (fl_tenth fl)
                     then (None, self2, dev2)
                     else if fl_gt fl stdx (fl_tenth fl) \<and> fl_gt fl stdy (fl_tenth fl)
                     then (None, self2, dev2)
                     else (None, self2, copy_into data tmp dev2)))))"

text \<open>
  The instance built with the constructor's default arguments (\<^verbatim>\<open>num_stdevs=4\<close>,
  \<^verbatim>\<open>kernel_type='float'\<close>) on a device where two buffers were allocated before, and
  the device after the construction.
\<close>

definition default_smoother :: "pyfloat GaussianSmoothingKernel" where
  "default_smoother =
     fst (projr (GaussianSmoothingKernel_init exact_floats
       \<lparr>fresh = 2, stream = [], mem = Stored\<rparr> (Finite 4) ''float''))"

definition default_device :: "pyfloat device" where
  "default_device =
     snd (projr (GaussianSmoothingKernel_init exact_floats
       \<lparr>fresh = 2, stream = [], mem = Stored\<rparr> (Finite 4) ''float''))"

subsection \<open>MassCenterKernel\<close>

record MassCenterKernel =
  threadsPerBlock :: int
  indexed_sum_middim_cuda :: kernel
  indexed_sum_lastdim_cuda :: kernel
  final_sums_cuda :: kernel

definition MassCenterKernel_init :: MassCenterKernel where
  "MassCenterKernel_init =
     \<lparr>threadsPerBlock = 256,
      indexed_sum_middim_cuda = load_kernel ''indexed_sum_middim''
        [(''IN_TYPE'', ''float''), (''BDIM_X'', ''256''), (''BDIM_Y'', ''1'')]
        (Some ''mass_center.cu''),
      indexed_sum_lastdim_cuda = load_kernel ''indexed_sum_lastdim''
        [(''IN_TYPE'', ''float''), (''BDIM_X'', ''32''), (''BDIM_Y'', ''32'')]
        (Some ''mass_center.cu''),
      final_sums_cuda = load_kernel ''final_sums''
        [(''IN_TYPE'', ''float''), (''BDIM_X'', ''256''), (''BDIM_Y'', ''1'')]
        (Some ''mass_center.cu'')\<rparr>"

text \<open>
  \<^verbatim>\<open>mass_center(array)\<close>. The sum of the whole array is computed on the device and
  read back; the model takes the value read back as the argument \<open>total_sum\<close>. The
  extent \<^verbatim>\<open>n\<close> is a 32-bit integer; the device allocator rejects a negative extent.
  Products of two 32-bit integers stay 32-bit; a sum with a Python integer does not.
\<close>

definition mass_center :: "MassCenterKernel \<Rightarrow> rat device \<Rightarrow> gpuarray \<Rightarrow> rat
    \<Rightarrow> (error + gpuarray) \<times> rat device" where
  "mass_center self dev array total_sum =
     (if dtype array \<noteq> Float32 then
        (Inl (NotImplementedError ''mass_center is only implemented for float32''), dev)
      else if ndim array < 2 then
        (Inl (IndexError ''tuple index out of range''), dev)
      else
        let i = np_int32 (int (shape array ! 0));
            m = np_int32 (int (shape array ! 1));
            n = (if ndim array \<ge> 3 then np_int32 (int (shape array ! 2)) else np_int32 1)
        in if total_sum = 0 then
             (Inl (ZeroDivisionError ''float division by zero''), dev)
           else
             let sc = 1 / total_sum;
                 (i_sum, dev1) = gpuarray_empty dev [shape array ! 0] Float32;
                 (m_sum, dev2) = gpuarray_empty dev1 [shape array ! 1] Float32
             in if n < 0 then
                  (Inl (DeviceError ''negative extent''), dev2)
                else
                  let (n_sum, dev3) = gpuarray_empty dev2 [nat n] Float32;
                      (out, dev4) = gpuarray_empty dev3 [if n > 1 then 3 else 2] Float32;
                      tpb = threadsPerBlock self;
                      dev5 = enqueue (Launch (indexed_sum_middim_cuda self)
                               [Buf (ident array), Buf (ident i_sum), I32 (np_int32 1), I32 i,
                                I32 (np_int32 (n * m)), F32 sc]
                               (tpb, 1, 1) (i, 1, 1) (tpb * 4)) dev4;
                      dev6 = (if ndim array \<ge> 3 then
                                enqueue (Launch (indexed_sum_lastdim_cuda self)
                                  [Buf (ident array), Buf (ident n_sum),
                                   I32 (np_int32 (i * m)), I32 n, F32 sc]
                                  (32, 32, 1) (1, (n + 32 - 1) div 32, 1) (32 * 32 * 4))
                                (enqueue (Launch (indexed_sum_middim_cuda self)
                                  [Buf (ident array), Buf (ident m_sum), I32 i, I32 n, I32 m, F32 sc]
                                  (tpb, 1, 1) (m, 1, 1) (tpb * 4)) dev5)
                              else
                                enqueue (Launch (indexed_sum_lastdim_cuda self)
                                  [Buf (ident array), Buf (ident m_sum), I32 i, I32 m, F32 sc]
                                  (32, 32, 1) (1, (m + 32 - 1) div 32, 1) (32 * 32 * 4)) dev5);
                      dev7 = enqueue (Launch (final_sums_cuda self)
                               [Buf (ident i_sum), I32 i, Buf (ident m_sum), I32 m,
                                Buf (ident n_sum), I32 n, Buf (ident out)]
                               (256, 1, 1) (if n > 1 then 3 else 2, 1, 1) (256 * 4)) dev6
                  in (Inr out, dev7))"

subsection \<open>InterpolatedShiftKernel\<close>

record InterpolatedShiftKernel =
  integer_shift_cuda :: kernel
  linear_interpolate_cuda :: kernel

definition InterpolatedShiftKernel_init :: InterpolatedShiftKernel where
  "InterpolatedShiftKernel_init =
     \<lparr>integer_shift_cuda = load_kernel ''integer_shift_kernel''
        [(''IN_TYPE'', ''complex<float>''), (''OUT_TYPE'', ''complex<float>''),
         (''BDIM_X'', ''32''), (''BDIM_Y'', ''32'')] (Some ''interpolated_shift.cu''),
      linear_interpolate_cuda = load_kernel ''linear_interpolate_kernel''
        [(''IN_TYPE'', ''complex<float>''), (''OUT_TYPE'', ''complex<float>''),
         (''BDIM_X'', ''32''), (''BDIM_Y'', ''32'')] (Some ''interpolated_shift.cu'')\<rparr>"

text \<open>
  \<^verbatim>\<open>interpolate_shift(array, shift)\<close>. The shift is converted to \<^verbatim>\<open>float32\<close>
  first, and everything after works on the converted values: \<^verbatim>\<open>np.modf\<close> splits
  each into its fractional and integral parts, the absolute values of the fractional
  parts are compared with the literal \<^verbatim>\<open>1e-6\<close> and the integral parts with 0. The
  integer-shift kernel receives \<^verbatim>\<open>np.int32\<close> of the two offsets, the interpolation
  kernel \<^verbatim>\<open>np.float32\<close> of them. The buffer \<^verbatim>\<open>out\<close> is allocated before the
  choice is made.
\<close>

definition interpolate_shift :: "'f floats \<Rightarrow> InterpolatedShiftKernel \<Rightarrow> 'f device \<Rightarrow> gpuarray
    \<Rightarrow> 'f list \<Rightarrow> (error + gpuarray) \<times> 'f device" where
  "interpolate_shift fl self dev array shift =
     (let shift32 = map (fl_float32 fl) shift
      in if length shift32 \<noteq> 2 then
        (Inl (NotImplementedError ''Shift only applied to 2D array.''), dev)
      else if dtype array \<noteq> Complex64 then
        (Inl (NotImplementedError ''Only complex single precision supported''), dev)
      else if ndim array \<noteq> 3 \<and> ndim array \<noteq> 2 then
        (Inl (NotImplementedError ''Only 2- or 3-dimensional arrays supported''), dev)
      else
        let (items, rows, columns) =
              (if ndim array = 3
               then (int (shape array ! 0), int (shape array ! 1), int (shape array ! 2))
               else (1, int (shape array ! 0), int (shape array ! 1)));
            offsetRow = shift32 ! 0;
            offsetCol = shift32 ! 1;
            (offsetRowFrac, offsetRowInt) = fl_modf fl offsetRow;
            (offsetColFrac, offsetColInt) = fl_modf fl offsetCol;
            (out, dev1) = gpuarray_empty dev (shape array) (dtype array);
            blk = (32, 32, 1);
            grd = ((rows + 31) div 32, (columns + 31) div 32, items)
        in if fl_lt fl (fl_abs fl offsetRowFrac) (fl_micro fl)
              \<and> fl_lt fl (fl_abs fl offsetColFrac) (fl_micro fl) then
             if fl_eq fl offsetRowInt (fl_zero fl) \<and> fl_eq fl offsetColInt (fl_zero fl) then
               (Inr array, dev1)
             else
               (Inr out,
                enqueue (Launch (integer_shift_cuda self)
                  [Buf (ident array), Buf (ident out), I32 (np_int32 rows), I32 (np_int32 columns),
                   I32 (fl_int32 fl offsetRow), I32 (fl_int32 fl offsetCol)]
                  blk grd 0) dev1)
           else
             (Inr out,
              enqueue (Launch (linear_interpolate_cuda self)
                [Buf (ident array), Buf (ident out), I32 (np_int32 rows), I32 (np_int32 columns),
                 F32 (fl_float32 fl offsetRow), F32 (fl_float32 fl offsetCol)]
                blk grd ((32 + 2) ^ 2 * 8 + 32 * (32 + 2) * 8)) dev1))"

section \<open>Properties\<close>

subsection \<open>The two-phase reduction\<close>

lemma dot_blocks_bounds:
  "int (size_arr B) \<le> 1024 * dot_blocks B \<and> 1024 * dot_blocks B < int (size_arr B) + 1024"
proof -
  define x where "x = int (size_arr B) + 1023"
  have e: "x = 1024 * (x div 1024) + x mod 1024" by simp
  have "0 \<le> x mod 1024" and "x mod 1024 < 1024" by simp_all
  with e have "x - 1023 \<le> 1024 * (x div 1024) \<and> 1024 * (x div 1024) < x + 1" by linarith
  then show ?thesis by (simp add: dot_blocks_def x_def)
qed

lemma dot_blocks_nonneg: "0 \<le> dot_blocks B"
  using dot_blocks_bounds[of B] by linarith

lemma dot_blocks_cases:
  "(dot_blocks B = 0) = (size_arr B = 0)
   \<and> (dot_blocks B = 1) = (1 \<le> size_arr B \<and> size_arr B \<le> 1024)
   \<and> (1 < dot_blocks B) = (1024 < size_arr B)"
  using dot_blocks_bounds[of B] by auto

text \<open>
  Claim C3, as the code has it. Take two buffers of equal element type and equal size
  and an instance whose accumulator type is float32 or float64 (4 or 8 bytes per
  accumulator). The call returns the output buffer: the caller's, or a fresh zeroed one
  of one element. The number of blocks is the size divided by 1024, rounded up; it is
  0 for an empty input, 1 for a size from 1 to 1024 and more than 1 above that. The
  scratch buffer after the call is the instance's old one if that held a slot for every
  block, and otherwise a fresh zeroed one with exactly one slot per block; either way it
  holds a slot for every block. The first launch is the product kernel (the complex one
  for complex input) on that many blocks of 1024 threads, with 1024 accumulators of
  shared memory; its target is the output buffer when there is exactly one block and the
  scratch buffer otherwise, so also for an empty input. A second launch follows exactly
  when there is more than one block: the full reduction on a single block of 1024
  threads, from the scratch buffer into the output buffer. Nothing else is enqueued.
\<close>

theorem dot_two_phase:
  assumes "dtype A = dtype B" and "size_arr A = size_arr B"
    and "acc_dtype self = Float32 \<or> acc_dtype self = Float64"
  shows "\<exists>out scratch dev'.
      dot self dev A B out_arg = (Inr out, self\<lparr>Ctmp := Some scratch\<rparr>, dev')
    \<and> out = (case out_arg of
               Some g \<Rightarrow> g
             | None \<Rightarrow> \<lparr>ident = fresh dev, shape = [1], dtype = acc_dtype self\<rparr>)
    \<and> int (size_arr B) \<le> 1024 * dot_blocks B
    \<and> 1024 * dot_blocks B < int (size_arr B) + 1024
    \<and> (dot_blocks B = 0) = (size_arr B = 0)
    \<and> (dot_blocks B = 1) = (1 \<le> size_arr B \<and> size_arr B \<le> 1024)
    \<and> scratch = (if scratch_size self < nat (dot_blocks B) \<or> Ctmp self = None
                  then \<lparr>ident = fresh dev + (if out_arg = None then 1 else 0),
                        shape = [nat (dot_blocks B)], dtype = acc_dtype self\<rparr>
                  else the (Ctmp self))
    \<and> dot_blocks B \<le> int (size_arr scratch)
    \<and> stream dev' = stream dev @
        Launch (if dtype B = Complex64 \<or> dtype B = Complex128
                then cdot_cuda self else dot_cuda self)
          [Buf (ident A), Buf (ident B), I32 (np_int32 (int (size_arr A))),
           Buf (ident (if dot_blocks B = 1 then out else scratch))]
          (1024, 1, 1) (dot_blocks B, 1, 1)
          (1024 * (if acc_dtype self = Float32 then 4 else 8))
        # (if 1 < dot_blocks B
           then [Launch (full_reduce_cuda self)
                   [Buf (ident scratch), Buf (ident out), I32 (np_int32 (dot_blocks B))]
                   (1024, 1, 1) (1, 1, 1)
                   ((if acc_dtype self = Float32 then 4 else 8) * 1024)]
           else [])"
proof -
  have els: "elsize (acc_dtype self) = Some (if acc_dtype self = Float32 then 4 else 8)"
    using assms(3) by (auto simp: elsize_def)
  show ?thesis
    using assms(1,2) dot_blocks_bounds[of B] dot_blocks_cases[of B]
    by (auto simp: dot_def els Let_def enqueue_def gpuarray_zeros_def size_arr_def
        scratch_size_def dot_phase1_def dot_phase2_def iscomplexobj_def
        split: option.splits prod.splits)
qed

text \<open>
  The theorem at the spec's scenario (a complex64 array of shape (2, 8, 8), so one block,
  with a 64-bit accumulator: one launch, into the output buffer 2) and at a float32 array
  of 3000 elements (three blocks: a launch into the scratch buffer 3, of three slots,
  and the reduction into the output buffer 2).
\<close>

theorem dot_two_phase_witness:
  "(\<exists>dev'.
      dot (ArrayUtilsKernel_init Float64) \<lparr>fresh = 2, stream = [], mem = Stored\<rparr>
        \<lparr>ident = 0, shape = [2, 8, 8], dtype = Complex64\<rparr>
        \<lparr>ident = 1, shape = [2, 8, 8], dtype = Complex64\<rparr> None
      = (Inr \<lparr>ident = 2, shape = [1], dtype = Float64\<rparr>,
         (ArrayUtilsKernel_init Float64)
           \<lparr>Ctmp := Some \<lparr>ident = 3, shape = [1], dtype = Float64\<rparr>\<rparr>, dev')
    \<and> stream dev' =
        [Launch (Kernel ''dot'' [(''IN_TYPE'', ''complex<float>''), (''ACC_TYPE'', ''double'')] None)
           [Buf 0, Buf 1, I32 128, Buf 2] (1024, 1, 1) (1, 1, 1) 8192])
   \<and> (\<exists>dev'.
      dot (ArrayUtilsKernel_init Float32) \<lparr>fresh = 2, stream = [], mem = Stored\<rparr>
        \<lparr>ident = 0, shape = [3, 1000], dtype = Float32\<rparr>
        \<lparr>ident = 1, shape = [3, 1000], dtype = Float32\<rparr> None
      = (Inr \<lparr>ident = 2, shape = [1], dtype = Float32\<rparr>,
         (ArrayUtilsKernel_init Float32)
           \<lparr>Ctmp := Some \<lparr>ident = 3, shape = [3], dtype = Float32\<rparr>\<rparr>, dev')
    \<and> stream dev' =
        [Launch (Kernel ''dot'' [(''IN_TYPE'', ''float''), (''ACC_TYPE'', ''float'')] None)
           [Buf 0, Buf 1, I32 3000, Buf 3] (1024, 1, 1) (3, 1, 1) 4096,
         Launch (Kernel ''full_reduce'' [(''IN_TYPE'', ''float''), (''OUT_TYPE'', ''float''),
                   (''ACC_TYPE'', ''float''), (''BDIM_X'', ''1024'')] None)
           [Buf 3, Buf 2, I32 3] (1024, 1, 1) (1, 1, 1) 4096])"
proof -
  let ?A1 = "\<lparr>ident = 0, shape = [2, 8, 8], dtype = Complex64\<rparr>"
  let ?B1 = "\<lparr>ident = 1, shape = [2, 8, 8], dtype = Complex64\<rparr>"
  let ?A2 = "\<lparr>ident = 0, shape = [3, 1000], dtype = Float32\<rparr>"
  let ?B2 = "\<lparr>ident = 1, shape = [3, 1000], dtype = Float32\<rparr>"
  have b1: "dot_blocks ?B1 = 1" by (simp add: dot_blocks_def size_arr_def)
  have b2: "dot_blocks ?B2 = 3" by (simp add: dot_blocks_def size_arr_def)
  have s: "scratch_size (ArrayUtilsKernel_init Float32) = 0"
    "scratch_size (ArrayUtilsKernel_init Float64) = 0"
    by (simp_all add: scratch_size_def ArrayUtilsKernel_init_def)
  have h1: "dtype ?A1 = dtype ?B1" "size_arr ?A1 = size_arr ?B1"
    "acc_dtype (ArrayUtilsKernel_init Float64) = Float32
     \<or> acc_dtype (ArrayUtilsKernel_init Float64) = Float64"
    by (simp_all add: size_arr_def ArrayUtilsKernel_init_def)
  have h2: "dtype ?A2 = dtype ?B2" "size_arr ?A2 = size_arr ?B2"
    "acc_dtype (ArrayUtilsKernel_init Float32) = Float32
     \<or> acc_dtype (ArrayUtilsKernel_init Float32) = Float64"
    by (simp_all add: size_arr_def ArrayUtilsKernel_init_def)
  have k: "acc_dtype (ArrayUtilsKernel_init acc) = acc"
    "Ctmp (ArrayUtilsKernel_init acc) = None"
    "cdot_cuda (ArrayUtilsKernel_init Float64)
       = Kernel ''dot'' [(''IN_TYPE'', ''complex<float>''), (''ACC_TYPE'', ''double'')] None"
    "dot_cuda (ArrayUtilsKernel_init Float32)
       = Kernel ''dot'' [(''IN_TYPE'', ''float''), (''ACC_TYPE'', ''float'')] None"
    "full_reduce_cuda (ArrayUtilsKernel_init Float32)
       = Kernel ''full_reduce'' [(''IN_TYPE'', ''float''), (''OUT_TYPE'', ''float''),
                   (''ACC_TYPE'', ''float''), (''BDIM_X'', ''1024'')] None" for acc
    by (simp_all add: ArrayUtilsKernel_init_def load_kernel_def acc_ctype_def)
  have n: "np_int32 128 = 128" "np_int32 3000 = 3000" "np_int32 3 = 3"
    by (simp_all add: np_int32_def)
  have z: "size_arr ?A1 = 128" "size_arr ?A2 = 3000" by (simp_all add: size_arr_def)
  have c1: "\<exists>dev'.
      dot (ArrayUtilsKernel_init Float64) \<lparr>fresh = 2, stream = [], mem = Stored\<rparr> ?A1 ?B1 None
      = (Inr \<lparr>ident = 2, shape = [1], dtype = Float64\<rparr>,
         (ArrayUtilsKernel_init Float64)
           \<lparr>Ctmp := Some \<lparr>ident = 3, shape = [1], dtype = Float64\<rparr>\<rparr>, dev')
    \<and> stream dev' =
        [Launch (Kernel ''dot'' [(''IN_TYPE'', ''complex<float>''), (''ACC_TYPE'', ''double'')] None)
           [Buf 0, Buf 1, I32 128, Buf 2] (1024, 1, 1) (1, 1, 1) 8192]"
    using dot_two_phase[OF h1, of "\<lparr>fresh = 2, stream = [], mem = Stored\<rparr>" None]
    unfolding b1 s k z
    by (auto simp: n)
  have c2: "\<exists>dev'.
      dot (ArrayUtilsKernel_init Float32) \<lparr>fresh = 2, stream = [], mem = Stored\<rparr> ?A2 ?B2 None
      = (Inr \<lparr>ident = 2, shape = [1], dtype = Float32\<rparr>,
         (ArrayUtilsKernel_init Float32)
           \<lparr>Ctmp := Some \<lparr>ident = 3, shape = [3], dtype = Float32\<rparr>\<rparr>, dev')
    \<and> stream dev' =
        [Launch (Kernel ''dot'' [(''IN_TYPE'', ''float''), (''ACC_TYPE'', ''float'')] None)
           [Buf 0, Buf 1, I32 3000, Buf 3] (1024, 1, 1) (3, 1, 1) 4096,
         Launch (Kernel ''full_reduce'' [(''IN_TYPE'', ''float''), (''OUT_TYPE'', ''float''),
                   (''ACC_TYPE'', ''float''), (''BDIM_X'', ''1024'')] None)
           [Buf 3, Buf 2, I32 3] (1024, 1, 1) (1, 1, 1) 4096]"
    using dot_two_phase[OF h2, of "\<lparr>fresh = 2, stream = [], mem = Stored\<rparr>" None]
    unfolding b2 s k z
    by (auto simp: n)
  show ?thesis
    by (rule conjI[OF c1 c2])
qed

text \<open>
  Against claim C3 as stated: two empty float32 buffers have equal type and equal size,
  the size 0 is at most 1024, yet no block is used rather than one, and the one launch,
  on an empty grid, has the scratch buffer 3 as its target, not the output buffer 2.
\<close>

theorem dot_two_phase_counterexample:
  "size_arr \<lparr>ident = 1, shape = [0], dtype = Float32\<rparr> \<le> 1024
   \<and> dot_blocks \<lparr>ident = 1, shape = [0], dtype = Float32\<rparr> \<noteq> 1
   \<and> dot (ArrayUtilsKernel_init Float32) \<lparr>fresh = 2, stream = [], mem = Stored\<rparr>
        \<lparr>ident = 0, shape = [0], dtype = Float32\<rparr>
        \<lparr>ident = 1, shape = [0], dtype = Float32\<rparr> None
      = (Inr \<lparr>ident = 2, shape = [1], dtype = Float32\<rparr>,
         (ArrayUtilsKernel_init Float32)
           \<lparr>Ctmp := Some \<lparr>ident = 3, shape = [0], dtype = Float32\<rparr>\<rparr>,
         \<lparr>fresh = 4,
          stream = [Launch (dot_cuda (ArrayUtilsKernel_init Float32))
                      [Buf 0, Buf 1, I32 0, Buf 3] (1024, 1, 1) (0, 1, 1) 4096],
          mem = Stored(2 := Zeros, 3 := Zeros)\<rparr>)"
  by (simp add: dot_def dot_blocks_def size_arr_def ArrayUtilsKernel_init_def elsize_def
      gpuarray_zeros_def enqueue_def dot_phase1_def dot_phase2_def iscomplexobj_def
      np_int32_def load_kernel_def acc_ctype_def Let_def)

subsection \<open>The scratch buffer only grows\<close>

lemma dot_scratch_step:
  assumes "dot self dev A B out_arg = (res, self', dev')"
  shows "scratch_size self \<le> scratch_size self'"
    and "dtype A = dtype B \<Longrightarrow> size_arr A = size_arr B \<Longrightarrow> dot_blocks B \<le> int (scratch_size self')"
    and "Ctmp self = Some c \<Longrightarrow> dot_blocks B \<le> int (size_arr c) \<Longrightarrow> Ctmp self' = Some c"
  using assms dot_blocks_nonneg[of B]
  by (auto simp: dot_def Let_def gpuarray_zeros_def size_arr_def scratch_size_def
      split: option.splits prod.splits if_splits)

lemma perform_step:
  assumes "perform (self, dev) c = (self', dev')"
  shows "scratch_size self \<le> scratch_size self'"
    and "needed c = Some b \<Longrightarrow> b \<le> int (scratch_size self')"
    and "Ctmp self = Some buf \<Longrightarrow> needed c = Some b \<Longrightarrow> b \<le> int (size_arr buf)
         \<Longrightarrow> Ctmp self' = Some buf"
proof -
  obtain A B out_arg res where d: "dot self dev A B out_arg = (res, self', dev')"
    and n: "needed c = (if dtype A = dtype B \<and> size_arr A = size_arr B then Some (dot_blocks B) else None)"
    using assms by (cases c; cases "dot self dev (case c of DotCall A B x \<Rightarrow> A | Norm2Call A x \<Rightarrow> A)
       (case c of DotCall A B x \<Rightarrow> B | Norm2Call A x \<Rightarrow> A) (case c of DotCall A B x \<Rightarrow> x | Norm2Call A x \<Rightarrow> x)")
      (auto simp: norm2_def)
  show "scratch_size self \<le> scratch_size self'" using dot_scratch_step(1)[OF d] .
  show "needed c = Some b \<Longrightarrow> b \<le> int (scratch_size self')"
    using dot_scratch_step(2)[OF d] n by (auto split: if_splits)
  show "Ctmp self = Some buf \<Longrightarrow> needed c = Some b \<Longrightarrow> b \<le> int (size_arr buf)
         \<Longrightarrow> Ctmp self' = Some buf"
    using dot_scratch_step(3)[OF d, of buf] n by (auto split: if_splits)
qed

lemma perform_calls_mono:
  "scratch_size (fst st) \<le> scratch_size (fst (foldl perform st cs))"
proof (induction cs arbitrary: st)
  case Nil
  show ?case by simp
next
  case (Cons c cs)
  obtain self dev where st: "st = (self, dev)" by (cases st)
  obtain self' dev' where p: "perform (self, dev) c = (self', dev')" by (cases "perform (self, dev) c")
  have "scratch_size self \<le> scratch_size self'" using perform_step(1)[OF p] .
  also have "\<dots> \<le> scratch_size (fst (foldl perform (self', dev') cs))"
    using Cons.IH[of "(self', dev')"] by simp
  finally show ?case by (simp add: st p)
qed

text \<open>
  Claim C9. A call of \<^verbatim>\<open>dot\<close> or \<^verbatim>\<open>norm2\<close> never leaves the instance with a smaller
  scratch buffer than it found, whether the call returns or raises. After a call that
  passed its assertions the scratch buffer holds at least the block count the call needed.
  A scratch buffer that is already large enough is kept as it is. Over any sequence of
  calls the capacity never drops below the one at the start.
\<close>

theorem scratch_non_shrinking:
  "scratch_size self \<le> scratch_size (fst (perform (self, dev) c))
   \<and> (\<forall>b. needed c = Some b \<longrightarrow> b \<le> int (scratch_size (fst (perform (self, dev) c))))
   \<and> (\<forall>buf b. Ctmp self = Some buf \<and> needed c = Some b \<and> b \<le> int (size_arr buf)
         \<longrightarrow> Ctmp (fst (perform (self, dev) c)) = Some buf)
   \<and> scratch_size self \<le> scratch_size (fst (foldl perform (self, dev) cs))"
proof -
  obtain self' dev' where p: "perform (self, dev) c = (self', dev')" by (cases "perform (self, dev) c")
  show ?thesis
    using perform_step[OF p] perform_calls_mono[of "(self, dev)" cs] by (auto simp: p)
qed

text \<open>
  The theorem on a fresh instance asked for three blocks, and on an instance holding three
  slots asked for one.
\<close>

theorem scratch_non_shrinking_witness:
  "needed (Norm2Call \<lparr>ident = 0, shape = [3, 1000], dtype = Float32\<rparr> None) = Some 3
   \<and> 3 \<le> int (scratch_size (fst (perform
        (ArrayUtilsKernel_init Float64, \<lparr>fresh = 2, stream = [], mem = Stored\<rparr>)
        (Norm2Call \<lparr>ident = 0, shape = [3, 1000], dtype = Float32\<rparr> None))))
   \<and> needed (DotCall \<lparr>ident = 0, shape = [2, 8, 8], dtype = Complex64\<rparr>
        \<lparr>ident = 1, shape = [2, 8, 8], dtype = Complex64\<rparr> None) = Some 1
   \<and> Ctmp (fst (perform
        ((ArrayUtilsKernel_init Float64)\<lparr>Ctmp := Some \<lparr>ident = 3, shape = [3], dtype = Float64\<rparr>\<rparr>,
         \<lparr>fresh = 4, stream = [], mem = Stored\<rparr>)
        (DotCall \<lparr>ident = 0, shape = [2, 8, 8], dtype = Complex64\<rparr>
           \<lparr>ident = 1, shape = [2, 8, 8], dtype = Complex64\<rparr> None)))
     = Some \<lparr>ident = 3, shape = [3], dtype = Float64\<rparr>"
proof -
  let ?c1 = "Norm2Call \<lparr>ident = 0, shape = [3, 1000], dtype = Float32\<rparr> None"
  let ?c2 = "DotCall \<lparr>ident = 0, shape = [2, 8, 8], dtype = Complex64\<rparr>
        \<lparr>ident = 1, shape = [2, 8, 8], dtype = Complex64\<rparr> None"
  let ?buf = "\<lparr>ident = 3, shape = [3], dtype = Float64\<rparr>"
  have n1: "needed ?c1 = Some 3" by (simp add: dot_blocks_def size_arr_def)
  have n2: "needed ?c2 = Some 1" by (simp add: dot_blocks_def size_arr_def)
  have s: "size_arr ?buf = 3" by (simp add: size_arr_def)
  have a: "3 \<le> int (scratch_size (fst (perform
        (ArrayUtilsKernel_init Float64, \<lparr>fresh = 2, stream = [], mem = Stored\<rparr>) ?c1)))"
    by (rule scratch_non_shrinking[THEN conjunct2, THEN conjunct1, rule_format, OF n1])
  have b: "Ctmp (fst (perform
        ((ArrayUtilsKernel_init Float64)\<lparr>Ctmp := Some ?buf\<rparr>,
         \<lparr>fresh = 4, stream = [], mem = Stored\<rparr>) ?c2)) = Some ?buf"
    by (rule scratch_non_shrinking[THEN conjunct2, THEN conjunct2, THEN conjunct1,
          rule_format, where b = 1])
       (simp add: s dot_blocks_def size_arr_def)
  show ?thesis
    by (intro conjI) (rule n1 a n2 b)+
qed

subsection \<open>fill3D: the two overlap lengths\<close>

lemma np_int32_id: "0 \<le> v \<Longrightarrow> v < 2147483648 \<Longrightarrow> np_int32 v = v"
  by (simp add: np_int32_def)

lemma np_int64_id:
  "- 9223372036854775808 \<le> v \<Longrightarrow> v < 9223372036854775808 \<Longrightarrow> np_int64 v = v"
proof -
  assume a: "- 9223372036854775808 \<le> v" "v < 9223372036854775808"
  have "(v + 9223372036854775808) mod 18446744073709551616 = v + 9223372036854775808"
    using a by (intro mod_pos_pos_trivial) simp_all
  then show ?thesis by (simp add: np_int64_def)
qed

lemma no_misfit:
  "\<not> list_ex (\<lambda>d. d \<noteq> 0) (map2 (\<lambda>b a. int b - int a) p p)"
  by (induction p) auto

lemma leading_misfit:
  assumes "length ys = length xs" and "take k ys = take k xs"
  shows "\<not> list_ex (\<lambda>d. d \<noteq> 0) (take k (map2 (\<lambda>b a. int b - int a) ys xs))"
proof -
  have "take k (map2 (\<lambda>b a. int b - int a) ys xs)
      = map2 (\<lambda>b a. int b - int a) (take k xs) (take k xs)"
    using assms by (simp add: take_map take_zip)
  then show ?thesis using no_misfit by simp
qed

lemma np_int32_sub: "np_int32 (x - np_int32 y) = np_int32 (x - y)"
proof -
  have "(x - ((y + 2147483648) mod 4294967296 - 2147483648) + 2147483648) mod 4294967296
      = (x + 4294967296 - (y + 2147483648) mod 4294967296) mod 4294967296"
    by (simp add: algebra_simps)
  also have "\<dots> = (x + 4294967296 - (y + 2147483648)) mod 4294967296"
    by (rule mod_diff_right_eq)
  also have "\<dots> = (x - y + 2147483648) mod 4294967296"
    by (simp add: algebra_simps)
  finally show ?thesis by (simp add: np_int32_def)
qed

lemma np_int32_np_int64: "np_int32 (np_int64 v) = np_int32 v"
proof -
  define x where "x = v + 9223372036854775808"
  have d: "(4294967296 :: int) dvd 18446744073709551616" by simp
  have "(x mod 18446744073709551616 - 9223372034707292160) mod 4294967296
      = (x mod 18446744073709551616 mod 4294967296 - 9223372034707292160) mod 4294967296"
    by (rule mod_diff_left_eq[symmetric])
  also have "x mod 18446744073709551616 mod 4294967296 = x mod 4294967296"
    using d by (rule mod_mod_cancel)
  also have "(x mod 4294967296 - 9223372034707292160) mod 4294967296
      = (x - 9223372034707292160) mod 4294967296"
    by (rule mod_diff_left_eq)
  finally show ?thesis by (simp add: np_int32_def np_int64_def x_def add.commute)
qed

lemma overlap_two_ways:
  "min (v + b) a - clip0 v = min (a - v) b - clip0 (- v)"
  by (simp add: clip0_def min_def)

text \<open>
  On one axis, for an offset other than \<open>- 2^63\<close> and extents below \<open>2^62\<close>, the start
  checks leave the offset between \<open>- b\<close> and \<open>a\<close>; no 64-bit operation wraps around and
  the two lengths are equal.
\<close>

lemma axis_lengths_agree:
  assumes "- 9223372036854775808 < v" and "v < 9223372036854775808"
    and "a < 4611686018427387904" and "b < 4611686018427387904"
    and "clip0 (np_int64 (- v)) < b" and "clip0 v < a"
  shows "np_int32 (np_int64 (min (np_int64 (v + b)) a - np_int32 (clip0 v)))
       = np_int32 (np_int64 (min (np_int64 (a - v)) b - np_int32 (clip0 (np_int64 (- v)))))"
proof -
  have n: "np_int64 (- v) = - v" using assms(1,2) by (intro np_int64_id) simp_all
  have vb: "- b < v" "v < a" "0 < a" "0 < b"
    using assms(5,6) unfolding n by (auto simp: clip0_def split: if_splits)
  have s1: "np_int64 (v + b) = v + b" using vb assms(3,4) by (intro np_int64_id) simp_all
  have s2: "np_int64 (a - v) = a - v" using vb assms(3,4) by (intro np_int64_id) simp_all
  have "np_int32 (np_int64 (min (np_int64 (v + b)) a - np_int32 (clip0 v)))
      = np_int32 (min (v + b) a - clip0 v)"
    unfolding s1 by (simp add: np_int32_np_int64 np_int32_sub)
  also have "\<dots> = np_int32 (min (a - v) b - clip0 (- v))"
    by (simp add: overlap_two_ways)
  also have "\<dots> = np_int32 (np_int64 (min (np_int64 (a - v)) b
                                          - np_int32 (clip0 (np_int64 (- v)))))"
    unfolding s2 n by (simp add: np_int32_np_int64 np_int32_sub)
  finally show ?thesis .
qed

lemma length3E:
  assumes "length xs = 3"
  obtains a b c where "xs = [a, b, c]"
  using assms by (auto simp: numeral_3_eq_3 length_Suc_conv)

lemma last3_length: "3 \<le> ndim A \<Longrightarrow> length (last3 A) = 3"
  by (simp add: last3_def ndim_def)

lemma map2ctype_Inl: "map2ctype d = Inl e \<Longrightarrow> e = ValueError ''No mapping for {}''"
  by (cases d) auto

text \<open>
  For offsets other than \<open>- 2^63\<close> and trailing extents below \<open>2^62\<close>, \<^verbatim>\<open>fill3D\<close>
  never fails with the error of the consistency check.
\<close>

lemma fill3D_lengths_in_range:
  assumes "\<forall>v \<in> {o0, o1, o2}. - 9223372036854775808 < v \<and> v < 9223372036854775808"
    and "\<forall>a \<in> set (last3 A) \<union> set (last3 B). a < 4611686018427387904"
  shows "fst (fill3D self dev A B (o0, o1, o2))
       \<noteq> Some (AssertionError ''left and right lenghts are not matching'')"
proof (cases "3 \<le> ndim A \<and> ndim B = ndim A")
  case False
  then show ?thesis unfolding fill3D_def Let_def by auto
next
  case True
  obtain a0 a1 a2 where a: "last3 A = [a0, a1, a2]"
    using last3_length[of A] True by (auto elim: length3E)
  obtain b0 b1 b2 where b: "last3 B = [b0, b1, b2]"
    using last3_length[of B] True by (auto elim: length3E)
  have eq: "fill3D_lengths [o0, o1, o2] [a0, a1, a2] [b0, b1, b2]
              (map np_int32 (map clip0 [o0, o1, o2]))
          = fill3D_lengths2 [o0, o1, o2] [a0, a1, a2] [b0, b1, b2]
              (map np_int32 (map clip0 (map (\<lambda>v. np_int64 (- v)) [o0, o1, o2])))"
    if "list_all2 (<) (map clip0 (map (\<lambda>v. np_int64 (- v)) [o0, o1, o2])) [b0, b1, b2]"
      and "list_all2 (<) (map clip0 [o0, o1, o2]) [a0, a1, a2]"
    using that assms axis_lengths_agree[of o0 a0 b0] axis_lengths_agree[of o1 a1 b1]
      axis_lengths_agree[of o2 a2 b2]
    by (simp add: fill3D_lengths_def fill3D_lengths2_def a b)
  show ?thesis
    using eq unfolding fill3D_def Let_def a b
    by (auto split: sum.splits dest: map2ctype_Inl)
qed

text \<open>
  Claim C10 at an input where the code departs from it. \<^verbatim>\<open>A\<close> has shape (1, 4, 4),
  \<^verbatim>\<open>B\<close> has shape (1, 3, 3) and the offset is \<open>(0, 0, - 2^63)\<close>. On the last axis the
  start in \<^verbatim>\<open>A\<close> is 0, and the start in \<^verbatim>\<open>B\<close>, the negated offset clipped at 0, is
  0 as well because the negation wraps around to \<open>- 2^63\<close>; both start checks pass. The
  length counted from \<^verbatim>\<open>A\<close> is then 3 and the length counted from \<^verbatim>\<open>B\<close> is 4, and
  \<^verbatim>\<open>fill3D\<close> fails with the error of the consistency check.
\<close>

theorem fill3D_lengths_mismatch:
  "list_all2 (<) (map clip0 [0, 0, - 9223372036854775808]) [1, 4, 4]
   \<and> list_all2 (<) (map clip0 (map (\<lambda>v. np_int64 (- v)) [0, 0, - 9223372036854775808])) [1, 3, 3]
   \<and> fill3D_lengths [0, 0, - 9223372036854775808] [1, 4, 4] [1, 3, 3] [0, 0, 0] = [1, 3, 3]
   \<and> fill3D_lengths2 [0, 0, - 9223372036854775808] [1, 4, 4] [1, 3, 3] [0, 0, 0] = [1, 3, 4]
   \<and> fill3D CropPadKernel_init \<lparr>fresh = 2, stream = [], mem = Stored\<rparr>
       \<lparr>ident = 0, shape = [1, 4, 4], dtype = Float32\<rparr>
       \<lparr>ident = 1, shape = [1, 3, 3], dtype = Float32\<rparr> (0, 0, - 9223372036854775808)
     = (Some (AssertionError ''left and right lenghts are not matching''), CropPadKernel_init,
        \<lparr>fresh = 2, stream = [], mem = Stored\<rparr>)"
proof -
  have w: "np_int64 9223372036854775808 = - 9223372036854775808"
    "np_int64 (- 9223372036854775805) = - 9223372036854775805"
    "np_int64 9223372036854775812 = - 9223372036854775804"
    "np_int64 (- 9223372036854775804) = - 9223372036854775804"
    "np_int64 0 = 0" "np_int64 1 = 1" "np_int64 3 = 3" "np_int64 4 = 4"
    by (simp_all add: np_int64_def)
  have n: "np_int32 (- 9223372036854775805) = 3" "np_int32 (- 9223372036854775804) = 4"
    "np_int32 0 = 0" "np_int32 1 = 1" "np_int32 3 = 3" "np_int32 4 = 4"
    by (simp_all add: np_int32_def)
  have l1: "fill3D_lengths [0, 0, - 9223372036854775808] [1, 4, 4] [1, 3, 3] [0, 0, 0] = [1, 3, 3]"
    by (simp add: fill3D_lengths_def w n)
  have l2: "fill3D_lengths2 [0, 0, - 9223372036854775808] [1, 4, 4] [1, 3, 3] [0, 0, 0] = [1, 3, 4]"
    by (simp add: fill3D_lengths2_def w n)
  have c: "map clip0 [0, 0, - 9223372036854775808] = [0, 0, 0]"
    "map clip0 (map (\<lambda>v. np_int64 (- v)) [0, 0, - 9223372036854775808]) = [0, 0, 0]"
    by (simp_all add: clip0_def w)
  have s: "last3 \<lparr>ident = 0, shape = [1, 4, 4], dtype = Float32\<rparr> = [1, 4, 4]"
    "last3 \<lparr>ident = 1, shape = [1, 3, 3], dtype = Float32\<rparr> = [1, 3, 3]"
    by (simp_all add: last3_def ndim_def)
  show ?thesis
    unfolding fill3D_def Let_def s
    by (simp add: clip0_def w l1 l2 n ndim_def)
qed

subsection \<open>fill3D: no overlap\<close>

lemma starts_check:
  "(clip0 (- v) < b \<and> clip0 v < a) = (0 < spec_overlap a b v)"
  by (auto simp: clip0_def spec_overlap_def)

text \<open>
  For offsets other than \<open>- 2^63\<close> the overlap check does what the claim says: with the
  same rank, at least three, and the same leading extents, an axis without overlap makes
  \<^verbatim>\<open>fill3D\<close> fail with the error of the overlap assertion, the kernel cache and the
  device being as they were.
\<close>

lemma fill3D_no_overlap_in_range:
  assumes "3 \<le> ndim A" and "ndim B = ndim A"
    and "take (ndim A - 3) (shape B) = take (ndim A - 3) (shape A)"
    and "\<forall>v \<in> {o0, o1, o2}. - 9223372036854775808 < v \<and> v < 9223372036854775808"
    and "spec_overlap (last3 A ! 0) (last3 B ! 0) o0 \<le> 0
       \<or> spec_overlap (last3 A ! 1) (last3 B ! 1) o1 \<le> 0
       \<or> spec_overlap (last3 A ! 2) (last3 B ! 2) o2 \<le> 0"
  shows "fill3D self dev A B (o0, o1, o2)
       = (Some (AssertionError ''At least one dimension lacks overlap''), self, dev)"
proof -
  obtain a0 a1 a2 where a: "last3 A = [a0, a1, a2]"
    using last3_length[OF assms(1)] by (rule length3E)
  obtain b0 b1 b2 where b: "last3 B = [b0, b1, b2]"
    using last3_length[of B] assms(1,2) by (auto elim: length3E)
  have n: "np_int64 (- o0) = - o0" "np_int64 (- o1) = - o1" "np_int64 (- o2) = - o2"
    using assms(4) by (auto intro!: np_int64_id)
  have m: "\<not> list_ex (\<lambda>d. d \<noteq> 0)
      (take (length (map2 (\<lambda>b a. int b - int a) (shape B) (shape A)) - 3)
         (map2 (\<lambda>b a. int b - int a) (shape B) (shape A)))"
    using leading_misfit[of "shape B" "shape A" "ndim A - 3"] assms(2,3)
    by (simp add: ndim_def)
  have "\<not> (list_all2 (<) (map clip0 (map (\<lambda>v. np_int64 (- v)) [o0, o1, o2])) (last3 B)
          \<and> list_all2 (<) (map clip0 [o0, o1, o2]) (last3 A))"
    using assms(5) starts_check[of o0 b0 a0] starts_check[of o1 b1 a1] starts_check[of o2 b2 a2]
    by (auto simp: a b n)
  then show ?thesis
    using assms(1,2) m unfolding fill3D_def Let_def by simp
qed

text \<open>
  Claim C7 at an input where the code departs from it. \<^verbatim>\<open>A\<close> and \<^verbatim>\<open>B\<close> both have
  shape (1, 4, 4) and the offset is \<open>(0, 0, - 2^63)\<close>, so on the last axis \<^verbatim>\<open>B\<close> lies
  far to the left of \<^verbatim>\<open>A\<close>, beyond both extents: the overlap is \<open>4 - 2^63\<close>. The
  negated offset wraps around to \<open>- 2^63\<close> and is clipped to 0, the overlap assertion
  passes, the two lengths agree at 4, and the kernel is launched with both starts 0 and
  the lengths (1, 4, 4), as for the offset (0, 0, 0).
\<close>

theorem fill3D_overlap_check_wraps:
  "spec_overlap 4 4 (- 9223372036854775808) = 4 - 9223372036854775808
   \<and> map clip0 (map (\<lambda>v. np_int64 (- v)) [0, 0, - 9223372036854775808]) = [0, 0, 0]
   \<and> fst (fill3D CropPadKernel_init \<lparr>fresh = 2, stream = [], mem = Stored\<rparr>
       \<lparr>ident = 0, shape = [1, 4, 4], dtype = Float32\<rparr>
       \<lparr>ident = 1, shape = [1, 4, 4], dtype = Float32\<rparr> (0, 0, - 9223372036854775808))
     = None
   \<and> snd (snd (fill3D CropPadKernel_init \<lparr>fresh = 2, stream = [], mem = Stored\<rparr>
       \<lparr>ident = 0, shape = [1, 4, 4], dtype = Float32\<rparr>
       \<lparr>ident = 1, shape = [1, 4, 4], dtype = Float32\<rparr> (0, 0, - 9223372036854775808)))
     = \<lparr>fresh = 2,
        stream = [Launch (Kernel ''fill3D'' [(''IN_TYPE'', ''float''), (''OUT_TYPE'', ''float'')] None)
                    [Buf 0, Buf 1, I32 1, I32 4, I32 4, I32 1, I32 4, I32 4,
                     I32 0, I32 0, I32 0, I32 0, I32 0, I32 0, I32 1, I32 4, I32 4]
                    (32, 32, 1) (1, 1, 1) 0],
        mem = Stored\<rparr>"
proof -
  have w: "np_int64 9223372036854775808 = - 9223372036854775808"
    "np_int64 (- 9223372036854775804) = - 9223372036854775804"
    "np_int64 9223372036854775812 = - 9223372036854775804"
    "np_int64 0 = 0" "np_int64 1 = 1" "np_int64 4 = 4"
    by (simp_all add: np_int64_def)
  have n: "np_int32 (- 9223372036854775804) = 4"
    "np_int32 0 = 0" "np_int32 1 = 1" "np_int32 4 = 4"
    by (simp_all add: np_int32_def)
  have l1: "fill3D_lengths [0, 0, - 9223372036854775808] [1, 4, 4] [1, 4, 4] [0, 0, 0] = [1, 4, 4]"
    by (simp add: fill3D_lengths_def w n)
  have l2: "fill3D_lengths2 [0, 0, - 9223372036854775808] [1, 4, 4] [1, 4, 4] [0, 0, 0] = [1, 4, 4]"
    by (simp add: fill3D_lengths2_def w n)
  have c: "map clip0 [0, 0, - 9223372036854775808] = [0, 0, 0]"
    "map clip0 (map (\<lambda>v. np_int64 (- v)) [0, 0, - 9223372036854775808]) = [0, 0, 0]"
    by (simp_all add: clip0_def w)
  have s: "last3 \<lparr>ident = 0, shape = [1, 4, 4], dtype = Float32\<rparr> = [1, 4, 4]"
    "last3 \<lparr>ident = 1, shape = [1, 4, 4], dtype = Float32\<rparr> = [1, 4, 4]"
    by (simp_all add: last3_def ndim_def)
  have o: "spec_overlap 4 4 (- 9223372036854775808) = 4 - 9223372036854775808"
    by (simp add: spec_overlap_def)
  show ?thesis
    unfolding fill3D_def Let_def s
    by (simp add: o clip0_def w l1 l2 n ndim_def CropPadKernel_init_def enqueue_def
        load_kernel_def)
qed

subsection \<open>crop\_pad\_2d\_simple: the offset handed to fill3D\<close>

lemma as_batch_last:
  assumes "2 \<le> ndim A"
  shows "shape (as_batch A) ! (ndim (as_batch A) - 2) = shape A ! (ndim A - 2)"
    and "shape (as_batch A) ! (ndim (as_batch A) - 1) = shape A ! (ndim A - 1)"
  using assms by (auto simp: as_batch_def ndim_def)

lemma half_difference:
  "(a::int) div 2 - b div 2 = (a - b) div 2 + (if even a \<and> odd b then 1 else 0)"
  by (cases "even a"; cases "even b") (auto elim!: evenE oddE)

text \<open>
  Claim C4, as the code has it. For arrays that pass the checks of
  \<^verbatim>\<open>crop_pad_2d_simple\<close> (same rank, at least two, and the same extents before the last
  two axes), the call is \<^verbatim>\<open>fill3D\<close> on the two arrays, viewed as batches, with offset 0
  on the axis before the last two and \<open>A_extent div 2 - B_extent div 2\<close> on each of the
  last two. That is \<open>(A_extent - B_extent) div 2\<close>, plus one when \<open>A_extent\<close> is even and
  \<open>B_extent\<close> is odd.
\<close>

theorem crop_pad_offset:
  assumes "2 \<le> ndim A" and "ndim B = ndim A"
    and "take (ndim A - 2) (shape B) = take (ndim A - 2) (shape A)"
  shows "crop_pad_2d_simple self dev A B
       = fill3D self dev (as_batch A) (as_batch B)
           (0,
            int (shape A ! (ndim A - 2)) div 2 - int (shape B ! (ndim B - 2)) div 2,
            int (shape A ! (ndim A - 1)) div 2 - int (shape B ! (ndim B - 1)) div 2)
     \<and> simple_offset (as_batch A) (as_batch B)
       = (0,
          (int (shape A ! (ndim A - 2)) - int (shape B ! (ndim B - 2))) div 2
            + (if even (shape A ! (ndim A - 2)) \<and> odd (shape B ! (ndim B - 2)) then 1 else 0),
          (int (shape A ! (ndim A - 1)) - int (shape B ! (ndim B - 1))) div 2
            + (if even (shape A ! (ndim A - 1)) \<and> odd (shape B ! (ndim B - 1)) then 1 else 0))"
proof -
  have b2: "2 \<le> ndim B" using assms by simp
  have off: "simple_offset (as_batch A) (as_batch B)
     = (0,
        int (shape A ! (ndim A - 2)) div 2 - int (shape B ! (ndim B - 2)) div 2,
        int (shape A ! (ndim A - 1)) div 2 - int (shape B ! (ndim B - 1)) div 2)"
    using as_batch_last[OF assms(1)] as_batch_last[OF b2]
    by (simp add: simple_offset_def Let_def)
  have "take (ndim A - 2) (shape A) = take (ndim A - 2) (shape B)" using assms(3) by simp
  then have m: "\<not> list_ex (\<lambda>d. d \<noteq> 0)
      (take (length (map2 (\<lambda>a b. int a - int b) (shape A) (shape B)) - 2)
         (map2 (\<lambda>a b. int a - int b) (shape A) (shape B)))"
    using leading_misfit[of "shape A" "shape B" "ndim A - 2"] assms(2)
    by (simp add: ndim_def)
  have call: "crop_pad_2d_simple self dev A B
       = fill3D self dev (as_batch A) (as_batch B)
           (0,
            int (shape A ! (ndim A - 2)) div 2 - int (shape B ! (ndim B - 2)) div 2,
            int (shape A ! (ndim A - 1)) div 2 - int (shape B ! (ndim B - 1)) div 2)"
    using assms(1,2) m off unfolding crop_pad_2d_simple_def Let_def by simp
  have "simple_offset (as_batch A) (as_batch B)
       = (0,
          (int (shape A ! (ndim A - 2)) - int (shape B ! (ndim B - 2))) div 2
            + (if even (shape A ! (ndim A - 2)) \<and> odd (shape B ! (ndim B - 2)) then 1 else 0),
          (int (shape A ! (ndim A - 1)) - int (shape B ! (ndim B - 1))) div 2
            + (if even (shape A ! (ndim A - 1)) \<and> odd (shape B ! (ndim B - 1)) then 1 else 0))"
    unfolding off
    using half_difference[of "int (shape A ! (ndim A - 2))" "int (shape B ! (ndim B - 2))"]
      half_difference[of "int (shape A ! (ndim A - 1))" "int (shape B ! (ndim B - 1))"]
    by simp
  with call show ?thesis by simp
qed

text \<open>The theorem for a 3 by 3 array placed into a 4 by 4 array: the offset is (0, 1, 1).\<close>

theorem crop_pad_offset_witness:
  "crop_pad_2d_simple CropPadKernel_init \<lparr>fresh = 2, stream = [], mem = Stored\<rparr>
     \<lparr>ident = 0, shape = [4, 4], dtype = Float32\<rparr>
     \<lparr>ident = 1, shape = [3, 3], dtype = Float32\<rparr>
   = fill3D CropPadKernel_init \<lparr>fresh = 2, stream = [], mem = Stored\<rparr>
       \<lparr>ident = 0, shape = [1, 4, 4], dtype = Float32\<rparr>
       \<lparr>ident = 1, shape = [1, 3, 3], dtype = Float32\<rparr> (0, 1, 1)"
proof -
  let ?A = "\<lparr>ident = 0, shape = [4, 4], dtype = Float32\<rparr>"
  let ?B = "\<lparr>ident = 1, shape = [3, 3], dtype = Float32\<rparr>"
  have h: "2 \<le> ndim ?A" "ndim ?B = ndim ?A"
    "take (ndim ?A - 2) (shape ?B) = take (ndim ?A - 2) (shape ?A)"
    by (simp_all add: ndim_def)
  show ?thesis
    unfolding crop_pad_offset[OF h, THEN conjunct1]
    by (simp add: ndim_def as_batch_def)
qed

text \<open>
  Against claim C4 as stated: for the same two arrays \<open>(A_extent - B_extent) div 2\<close> is 0
  on both axes, the offset of the code is 1 on both, and the two calls of
  \<^verbatim>\<open>fill3D\<close> enqueue different launches.
\<close>

theorem crop_pad_offset_counterexample:
  "simple_offset (as_batch \<lparr>ident = 0, shape = [4, 4], dtype = Float32\<rparr>)
     (as_batch \<lparr>ident = 1, shape = [3, 3], dtype = Float32\<rparr>) = (0, 1, 1)
   \<and> (0, (int 4 - int 3) div 2, (int 4 - int 3) div 2) = (0 :: int, 0 :: int, 0 :: int)
   \<and> crop_pad_2d_simple CropPadKernel_init \<lparr>fresh = 2, stream = [], mem = Stored\<rparr>
       \<lparr>ident = 0, shape = [4, 4], dtype = Float32\<rparr>
       \<lparr>ident = 1, shape = [3, 3], dtype = Float32\<rparr>
     \<noteq> fill3D CropPadKernel_init \<lparr>fresh = 2, stream = [], mem = Stored\<rparr>
       (as_batch \<lparr>ident = 0, shape = [4, 4], dtype = Float32\<rparr>)
       (as_batch \<lparr>ident = 1, shape = [3, 3], dtype = Float32\<rparr>)
       (0, (int 4 - int 3) div 2, (int 4 - int 3) div 2)"
  by (simp add: crop_pad_2d_simple_def fill3D_def simple_offset_def as_batch_def ndim_def
      last3_def clip0_def fill3D_lengths_def fill3D_lengths2_def np_int32_id np_int64_id
      CropPadKernel_init_def enqueue_def load_kernel_def Let_def)

subsection \<open>mass\_center: the length of the result\<close>

lemma mass_center_out:
  assumes "mass_center self dev array tsum = (Inr out, dev')"
  shows "dtype array = Float32 \<and> 2 \<le> ndim array \<and> tsum \<noteq> 0
    \<and> shape out = [if 3 \<le> ndim array \<and> 1 < np_int32 (int (shape array ! 2)) then 3 else 2]"
  using assms unfolding mass_center_def Let_def gpuarray_empty_def
  by (auto simp: np_int32_id split: if_splits)

text \<open>
  Claim C5, as the code has it. When \<^verbatim>\<open>mass_center\<close> returns, the input is a float32
  array of rank at least two with a nonzero sum, and the output is a vector whose length
  is 3 when the input has rank at least three and its third extent, as the 32-bit integer
  the kernels receive, exceeds 1; otherwise the length is 2. For a third extent below
  \<open>2^31\<close> that integer is the extent itself. So a 2D input gives 2 components, and so
  does a 3D input whose last extent is 1.
\<close>

theorem mass_center_length:
  assumes "mass_center self dev array tsum = (Inr out, dev')"
  shows "size_arr out
       = (if 3 \<le> ndim array \<and> 1 < np_int32 (int (shape array ! 2)) then 3 else 2)
     \<and> (shape array ! 2 < 2147483648 \<longrightarrow>
          size_arr out = (if 3 \<le> ndim array \<and> 1 < shape array ! 2 then 3 else 2))
     \<and> (ndim array = 2 \<longrightarrow> size_arr out = 2)"
proof -
  have s: "shape out = [if 3 \<le> ndim array \<and> 1 < np_int32 (int (shape array ! 2)) then 3 else 2]"
    using mass_center_out[OF assms] by simp
  have "shape array ! 2 < 2147483648 \<Longrightarrow>
      np_int32 (int (shape array ! 2)) = int (shape array ! 2)"
    by (rule np_int32_id) simp_all
  with s show ?thesis by (auto simp: size_arr_def)
qed

text \<open>The theorem for a 4 by 4 by 3 array with sum 1: three components.\<close>

theorem mass_center_length_witness:
  "fst (mass_center MassCenterKernel_init \<lparr>fresh = 2, stream = [], mem = Stored\<rparr>
     \<lparr>ident = 0, shape = [4, 4, 3], dtype = Float32\<rparr> 1)
     = Inr \<lparr>ident = 5, shape = [3], dtype = Float32\<rparr>
   \<and> size_arr \<lparr>ident = 5, shape = [3], dtype = Float32\<rparr> = 3"
proof -
  let ?call = "mass_center MassCenterKernel_init \<lparr>fresh = 2, stream = [], mem = Stored\<rparr>
     \<lparr>ident = 0, shape = [4, 4, 3], dtype = Float32\<rparr> 1"
  have f: "fst ?call = Inr \<lparr>ident = 5, shape = [3], dtype = Float32\<rparr>"
    by (simp add: mass_center_def gpuarray_empty_def ndim_def np_int32_def Let_def)
  then have "?call = (Inr \<lparr>ident = 5, shape = [3], dtype = Float32\<rparr>, snd ?call)"
    by (metis prod.collapse)
  from mass_center_length[OF this] f show ?thesis
    by (simp add: ndim_def np_int32_def)
qed

text \<open>
  Against claim C5 as stated: a 4 by 4 by 1 array has rank 3, and the result has 2
  components.
\<close>

theorem mass_center_length_counterexample:
  "ndim \<lparr>ident = 0, shape = [4, 4, 1], dtype = Float32\<rparr> = 3
   \<and> fst (mass_center MassCenterKernel_init \<lparr>fresh = 2, stream = [], mem = Stored\<rparr>
        \<lparr>ident = 0, shape = [4, 4, 1], dtype = Float32\<rparr> 1)
     = Inr \<lparr>ident = 5, shape = [2], dtype = Float32\<rparr>
   \<and> size_arr \<lparr>ident = 5, shape = [2], dtype = Float32\<rparr> = 2"
  by (simp add: mass_center_def gpuarray_empty_def ndim_def np_int32_def size_arr_def Let_def)

subsection \<open>transpose: the argument checks\<close>

lemma transpose_launches:
  "(fst (transpose self dev input output) = None)
   = (length (shape input) = 2 \<and> 2 \<le> length (shape output)
      \<and> shape input ! 0 = shape output ! 1 \<and> shape input ! 1 = shape output ! 0
      \<and> dtype input = Int32 \<and> dtype output = Int32)"
  by (auto simp: transpose_def Let_def)

text \<open>
  Claim C8 at an input where the code departs from it. The input is a 2 by 3 array of
  32-bit integers, the output a 3 by 2 by 5 array of 32-bit integers: the output is not
  two-dimensional and its shape is not the reversed shape of the input, yet no error is
  raised and the kernel is launched. The second check reads only the first two extents of
  the output and nothing checks its rank.
\<close>

theorem transpose_rank3_output:
  "transpose TransposeKernel_init \<lparr>fresh = 2, stream = [], mem = Stored\<rparr>
     \<lparr>ident = 0, shape = [2, 3], dtype = Int32\<rparr>
     \<lparr>ident = 1, shape = [3, 2, 5], dtype = Int32\<rparr>
   = (None,
      \<lparr>fresh = 2,
       stream = [Launch (transpose_cuda TransposeKernel_init)
                   [Buf 0, Buf 1, I32 3, I32 2] (16, 16, 1) (1, 1, 1) 0],
       mem = Stored\<rparr>)"
  by (simp add: transpose_def enqueue_def np_int32_def Let_def)

theorem transpose_rank3_output_witness:
  "fst (transpose TransposeKernel_init \<lparr>fresh = 2, stream = [], mem = Stored\<rparr>
     \<lparr>ident = 0, shape = [2, 3], dtype = Int32\<rparr>
     \<lparr>ident = 1, shape = [3, 2, 5], dtype = Int32\<rparr>) = None
   \<and> length (shape \<lparr>ident = 1, shape = [3, 2, 5], dtype = Int32\<rparr>) = 3
   \<and> shape \<lparr>ident = 1, shape = [3, 2, 5], dtype = Int32\<rparr>
       \<noteq> rev (shape \<lparr>ident = 0, shape = [2, 3], dtype = Int32\<rparr>)"
  unfolding transpose_rank3_output by simp

end
